theory Spec2Isabelle
  imports Complex_Main
begin

section \<open>Python strings and dictionaries\<close>

text \<open>
  A Python \<open>str\<close> is modelled as an Isabelle \<open>string\<close> holding the UTF-8 bytes of the text.
  Concatenation, \<open>startswith\<close>, the substring test \<open>in\<close> and \<open>replace\<close> act on the bytes as
  they act on the code points, because UTF-8 is self-synchronising. \<open>lower\<close> and \<open>strip\<close> are
  the ASCII parts of Python's functions: bytes above 127 are left alone.
\<close>

definition lower_char :: "char \<Rightarrow> char" where
  "lower_char c =
     (let n = (of_char c :: nat) in if 65 \<le> n \<and> n \<le> 90 then char_of (n + 32) else c)"

definition lower :: "string \<Rightarrow> string" where
  "lower s = map lower_char s"

fun startswith :: "string \<Rightarrow> string \<Rightarrow> bool" where
  "startswith s [] = True"
| "startswith [] (p # ps) = False"
| "startswith (c # cs) (p # ps) = (c = p \<and> startswith cs ps)"

text \<open>\<open>contains s sub\<close> is Python's \<open>sub in s\<close>.\<close>

fun contains :: "string \<Rightarrow> string \<Rightarrow> bool" where
  "contains [] sub = (sub = [])"
| "contains (c # cs) sub = (startswith (c # cs) sub \<or> contains cs sub)"

text \<open>
  \<open>replace s old new\<close> is \<open>s.replace(old, new)\<close>: the occurrences of \<open>old\<close> are found from
  the left and do not overlap. For an empty \<open>old\<close> Python puts \<open>new\<close> before every character
  and at the end.
\<close>

function replace_ne :: "string \<Rightarrow> string \<Rightarrow> string \<Rightarrow> string" where
  "replace_ne [] old new = []"
| "replace_ne (c # cs) old new =
     (if startswith (c # cs) old then new @ replace_ne (drop (length old - 1) cs) old new
      else c # replace_ne cs old new)"
  by pat_completeness auto
termination
  by (relation "measure (\<lambda>(s, old, new). length s)") auto

definition replace :: "string \<Rightarrow> string \<Rightarrow> string \<Rightarrow> string" where
  "replace s old new =
     (if old = [] then new @ concat (map (\<lambda>c. c # new) s) else replace_ne s old new)"

text \<open>\<open>count_char s c\<close> is \<open>s.count(c)\<close> for a one-character \<open>c\<close>.\<close>

definition count_char :: "string \<Rightarrow> char \<Rightarrow> nat" where
  "count_char s c = length (filter (\<lambda>x. x = c) s)"

definition is_space :: "char \<Rightarrow> bool" where
  "is_space c = (let n = (of_char c :: nat) in (9 \<le> n \<and> n \<le> 13) \<or> (28 \<le> n \<and> n \<le> 32))"

definition strip :: "string \<Rightarrow> string" where
  "strip s = rev (dropWhile is_space (rev (dropWhile is_space s)))"

text \<open>\<open>join sep xs\<close> is \<open>sep.join(xs)\<close>.\<close>

fun join :: "string \<Rightarrow> string list \<Rightarrow> string" where
  "join sep [] = []"
| "join sep [x] = x"
| "join sep (x # y # ys) = x @ sep @ join sep (y # ys)"

text \<open>
  A message is a dictionary from field names to strings; \<open>dict_get m k d\<close> is \<open>m.get(k, d)\<close>.
\<close>

type_synonym message = "string \<rightharpoonup> string"

definition dict_get :: "message \<Rightarrow> string \<Rightarrow> string \<Rightarrow> string" where
  "dict_get m k d = (case m k of None \<Rightarrow> d | Some v \<Rightarrow> v)"

text \<open>
  \<open>keep_last n xs\<close> is the slice \<open>xs[-n:]\<close> for a positive \<open>n\<close>: the last \<open>n\<close> elements, or all
  of them when there are fewer.
\<close>

definition keep_last :: "nat \<Rightarrow> 'a list \<Rightarrow> 'a list" where
  "keep_last n xs = drop (length xs - n) xs"

section \<open>Tone matcher (response\_engine/tone\_matcher.py)\<close>

definition emoji_smile :: string where
  "emoji_smile = [CHR 0xF0, CHR 0x9F, CHR 0x98, CHR 0x8A]"

definition emoji_heart :: string where
  "emoji_heart = [CHR 0xE2, CHR 0x9D, CHR 0xA4, CHR 0xEF, CHR 0xB8, CHR 0x8F]"

definition emoji_thumbs_up :: string where
  "emoji_thumbs_up = [CHR 0xF0, CHR 0x9F, CHR 0x91, CHR 0x8D]"

record tone_config =
  indicators :: "string list"
  adjustments :: "string list"

text \<open>The dictionary \<open>self.tone_patterns\<close>, in the order of the source.\<close>

definition tone_patterns :: "(string \<times> tone_config) list" where
  "tone_patterns =
     [(''formal'',
         \<lparr>indicators = [''sir'', ''madam'', ''please'', ''thank you'', ''regards''],
          adjustments = [''add formality'', ''use proper grammar'', ''be respectful'']\<rparr>),
      (''casual'',
         \<lparr>indicators = [''hey'', ''sup'', ''cool'', ''awesome'', ''lol''],
          adjustments = [''be relaxed'', ''use contractions'', ''be friendly'']\<rparr>),
      (''professional'',
         \<lparr>indicators = [''meeting'', ''project'', ''deadline'', ''business''],
          adjustments = [''be professional'', ''be concise'', ''be clear'']\<rparr>),
      (''friendly'',
         \<lparr>indicators = [''friend'', ''buddy'', ''pal'', emoji_smile, emoji_heart],
          adjustments = [''be warm'', ''be supportive'', ''be encouraging'']\<rparr>),
      (''urgent'',
         \<lparr>indicators = [''asap'', ''urgent'', ''emergency'', ''now''],
          adjustments = [''be quick'', ''be direct'', ''be responsive'']\<rparr>)]"

text \<open>
  \<open>tone_adjustments tone\<close> is \<open>self.tone_patterns.get(tone, {}).get("adjustments", [])\<close>.
\<close>

definition tone_adjustments :: "string \<Rightarrow> string list" where
  "tone_adjustments tone =
     (case map_of tone_patterns tone of None \<Rightarrow> [] | Some cfg \<Rightarrow> adjustments cfg)"

text \<open>
  \<open>apply_tone\<close>. The tests \<open>"formal" in adjustments\<close> and its siblings are membership tests on
  the list \<open>adjustments\<close>, whose elements are whole phrases. No operation of the body raises on
  strings, so the \<open>except\<close> branch is not a branch of the model.
\<close>

definition apply_tone :: "string \<Rightarrow> string \<Rightarrow> string" where
  "apply_tone response tone =
     (if tone = ''neutral'' then response
      else
        let adjs = tone_adjustments tone;
            adjusted_response = response
        in
          if ''formal'' \<in> set adjs then
            (if \<not> (startswith response ''Dear'' \<or> startswith response ''Hello''
                   \<or> startswith response ''Hi'')
             then ''Hello, '' @ response else adjusted_response)
          else if ''casual'' \<in> set adjs then
            replace (replace response ''Hello'' ''Hey'') ''Thank you'' ''Thanks''
          else if ''professional'' \<in> set adjs then
            (if contains (lower adjusted_response) ''lol''
             then replace (replace adjusted_response ''lol'' '''') ''LOL'' ''''
             else adjusted_response)
          else if ''friendly'' \<in> set adjs then
            (if \<not> list_ex (contains adjusted_response)
                     [emoji_smile, emoji_heart, emoji_thumbs_up]
             then adjusted_response @ '' '' @ emoji_smile else adjusted_response)
          else if ''urgent'' \<in> set adjs then
            (if \<not> contains adjusted_response ''!'' then adjusted_response @ ''!''
             else adjusted_response)
          else adjusted_response)"

text \<open>
  \<open>determine_tone\<close>: the base tone from the intent type, overridden by the context keywords
  and then by the sender.
\<close>

definition determine_tone :: "string \<Rightarrow> string \<Rightarrow> string \<Rightarrow> string" where
  "determine_tone intent_type context sender =
     (let tone0 =
            (if intent_type = ''greeting'' then ''friendly''
             else if intent_type = ''question'' then ''helpful''
             else if intent_type = ''request'' then ''professional''
             else if intent_type = ''complaint'' then ''empathetic''
             else if intent_type = ''urgent'' then ''urgent''
             else if intent_type = ''casual'' then ''casual''
             else ''neutral'');
          tone1 =
            (if contains (lower context) ''work'' \<or> contains (lower context) ''business''
             then ''professional''
             else if contains (lower context) ''friend'' \<or> contains (lower context) ''family''
             then ''friendly''
             else tone0)
      in
        if sender \<in> set [''boss'', ''manager'', ''supervisor''] then ''professional''
        else if sender \<in> set [''friend'', ''family'', ''close''] then ''casual''
        else tone1)"

section \<open>Intent classifier (response\_engine/intent\_classifier.py)\<close>

definition emoji_grin :: string where
  "emoji_grin = [CHR 0xF0, CHR 0x9F, CHR 0x98, CHR 0x84]"

definition emoji_joy :: string where
  "emoji_joy = [CHR 0xF0, CHR 0x9F, CHR 0x98, CHR 0x82]"

text \<open>
  The dictionary \<open>self.intent_patterns\<close>, in the order of the source. Every pattern is a
  literal text, so \<open>re.search\<close> is a substring test; the pattern written \<open>\?\<close> in the source
  matches the character \<open>?\<close>.
\<close>

definition intent_patterns :: "(string \<times> string list) list" where
  "intent_patterns =
     [(''greeting'',
         [''hi'', ''hello'', ''hey'', ''sup'', ''what'' @ [CHR 39] @ ''s up'', ''howdy'',
          ''good morning'', ''good afternoon'', ''good evening'']),
      (''question'',
         [''?'', ''what'', ''how'', ''why'', ''when'', ''where'', ''who'',
          ''can you'', ''could you'', ''would you'', ''do you'']),
      (''request'',
         [''please'', ''can you'', ''could you'', ''would you mind'',
          ''i need'', ''i want'', ''help me'', ''assist'']),
      (''compliment'',
         [''you'' @ [CHR 39] @ ''re great'', ''you'' @ [CHR 39] @ ''re awesome'',
          ''you'' @ [CHR 39] @ ''re amazing'',
          ''thank you'', ''thanks'', ''appreciate'', ''love it'']),
      (''complaint'',
         [''problem'', ''issue'', ''wrong'', ''broken'', ''doesn'' @ [CHR 39] @ ''t work'',
          ''annoying'', ''frustrated'', ''angry'', ''upset'']),
      (''casual'',
         [''lol'', ''haha'', emoji_grin, emoji_joy, ''cool'', ''nice'', ''awesome'',
          ''yeah'', ''sure'', ''okay'', ''whatever'']),
      (''urgent'',
         [''asap'', ''urgent'', ''emergency'', ''now'', ''quick'',
          ''important'', ''critical'', ''immediately''])]"

text \<open>
  The character class of the \<open>has_emoji\<close> test, on the UTF-8 bytes: the code points
  U+2600..U+27BF, U+1F1E0..U+1F1FF, U+1F300..U+1F5FF, U+1F600..U+1F64F and U+1F680..U+1F6FF.
\<close>

definition byte_in :: "char \<Rightarrow> nat \<Rightarrow> nat \<Rightarrow> bool" where
  "byte_in c lo hi = (lo \<le> (of_char c :: nat) \<and> (of_char c :: nat) \<le> hi)"

fun emoji_at :: "string \<Rightarrow> bool" where
  "emoji_at (b1 # b2 # b3 # rest) =
     ((b1 = CHR 0xE2 \<and> byte_in b2 0x98 0x9E \<and> byte_in b3 0x80 0xBF)
      \<or> (case rest of
           [] \<Rightarrow> False
         | b4 # _ \<Rightarrow>
             b1 = CHR 0xF0 \<and> b2 = CHR 0x9F \<and> byte_in b4 0x80 0xBF
             \<and> (byte_in b3 0x8C 0x97 \<or> b3 = CHR 0x98
                  \<or> (b3 = CHR 0x99 \<and> byte_in b4 0x80 0x8F)
                  \<or> byte_in b3 0x9A 0x9B
                  \<or> (b3 = CHR 0x87 \<and> byte_in b4 0xA0 0xBF))))"
| "emoji_at _ = False"

fun has_emoji_char :: "string \<Rightarrow> bool" where
  "has_emoji_char [] = False"
| "has_emoji_char (c # cs) = (emoji_at (c # cs) \<or> has_emoji_char cs)"

text \<open>\<open>isupper s\<close> is \<open>s.isupper()\<close> on ASCII letters.\<close>

definition isupper :: "string \<Rightarrow> bool" where
  "isupper s = (list_ex (\<lambda>c. byte_in c 65 90) s \<and> \<not> list_ex (\<lambda>c. byte_in c 97 122) s)"

record intent_context =
  is_question :: bool
  has_emoji :: bool
  is_caps :: bool
  content_length :: nat
  ctx_platform :: string
  sender_known :: bool

record intent =
  intent_type :: string
  confidence :: real
  scores :: "(string \<times> nat) list"
  intent_ctx :: intent_context

definition intent_score :: "string \<Rightarrow> string list \<Rightarrow> nat" where
  "intent_score content patterns = length (filter (contains content) patterns)"

text \<open>
  \<open>max(intent_scores, key=intent_scores.get)\<close>: the first key, in the order of the
  dictionary, that has the largest score.
\<close>

fun max_by_score :: "string \<times> nat \<Rightarrow> (string \<times> nat) list \<Rightarrow> string \<times> nat" where
  "max_by_score best [] = best"
| "max_by_score best (kv # kvs) = max_by_score (if snd best < snd kv then kv else best) kvs"

text \<open>
  \<open>classify_intent\<close>. With string fields nothing in the body raises, so the \<open>except\<close> branch
  is not a branch of the model. The field \<open>content_length\<close> counts bytes.
\<close>

definition classify_intent :: "message \<Rightarrow> intent" where
  "classify_intent msg =
     (let content = lower (dict_get msg ''content'' '''');
          sender = dict_get msg ''sender'' '''';
          platform = dict_get msg ''platform'' '''';
          intent_scores = map (\<lambda>(name, patterns). (name, intent_score content patterns))
                              intent_patterns;
          primary_intent =
            (case intent_scores of [] \<Rightarrow> ''unknown'' | kv # kvs \<Rightarrow> fst (max_by_score kv kvs));
          max_score =
            (case intent_scores of [] \<Rightarrow> 0 | kv # kvs \<Rightarrow> snd (max_by_score kv kvs))
      in
        \<lparr>intent_type = primary_intent,
         confidence = min (real max_score / 3) 1,
         scores = intent_scores,
         intent_ctx =
           \<lparr>is_question = contains content ''?'',
            has_emoji = has_emoji_char content,
            is_caps = isupper content,
            content_length = length content,
            ctx_platform = platform,
            sender_known = (sender \<noteq> [])\<rparr>\<rparr>)"

section \<open>Regular expressions of the safety checks\<close>

text \<open>
  The patterns of the safety monitor are sequences of character classes with a repetition
  count, and the assertion \<open>\b\<close>. \<open>Rep cls lo hi\<close> stands for \<open>cls{lo,hi}\<close> (\<open>hi = None\<close>: no upper
  bound). \<open>rx_here p prev s\<close> holds when \<open>p\<close> matches a prefix of \<open>s\<close>, where \<open>prev\<close> is the
  character before \<open>s\<close> in the searched text; \<open>rx_search p s\<close> is \<open>re.search(p, s)\<close> read as a
  truth value. Classes are the ASCII parts of Python's: a byte above 127 is neither a digit,
  nor a word character, nor white space.
\<close>

datatype rx_item = WordBoundary | Rep "char \<Rightarrow> bool" nat "nat option"

definition is_digit :: "char \<Rightarrow> bool" where
  "is_digit c = byte_in c 48 57"

definition is_upper_letter :: "char \<Rightarrow> bool" where
  "is_upper_letter c = byte_in c 65 90"

definition is_letter :: "char \<Rightarrow> bool" where
  "is_letter c = (byte_in c 65 90 \<or> byte_in c 97 122)"

definition is_word :: "char \<Rightarrow> bool" where
  "is_word c = (is_letter c \<or> is_digit c \<or> c = CHR ''_'')"

definition is_word_opt :: "char option \<Rightarrow> bool" where
  "is_word_opt x = (case x of None \<Rightarrow> False | Some c \<Rightarrow> is_word c)"

definition head_opt :: "string \<Rightarrow> char option" where
  "head_opt s = (case s of [] \<Rightarrow> None | c # _ \<Rightarrow> Some c)"

definition dec_opt :: "nat option \<Rightarrow> nat option" where
  "dec_opt hi = (case hi of None \<Rightarrow> None | Some h \<Rightarrow> Some (h - 1))"

function rx_here :: "rx_item list \<Rightarrow> char option \<Rightarrow> string \<Rightarrow> bool" where
  "rx_here [] prev s = True"
| "rx_here (WordBoundary # r) prev s =
     (is_word_opt prev \<noteq> is_word_opt (head_opt s) \<and> rx_here r prev s)"
| "rx_here (Rep cls lo hi # r) prev [] = (lo = 0 \<and> rx_here r prev [])"
| "rx_here (Rep cls lo hi # r) prev (c # cs) =
     ((lo = 0 \<and> rx_here r prev (c # cs))
      \<or> (hi \<noteq> Some 0 \<and> cls c \<and> rx_here (Rep cls (lo - 1) (dec_opt hi) # r) (Some c) cs))"
  by pat_completeness auto
termination
  by (relation "measure (\<lambda>(p, prev, s). length p + length s)") auto

fun rx_from :: "rx_item list \<Rightarrow> char option \<Rightarrow> string \<Rightarrow> bool" where
  "rx_from p prev [] = rx_here p prev []"
| "rx_from p prev (c # cs) = (rx_here p prev (c # cs) \<or> rx_from p (Some c) cs)"

definition rx_search :: "rx_item list \<Rightarrow> string \<Rightarrow> bool" where
  "rx_search p s = rx_from p None s"

definition rx_lit :: "char \<Rightarrow> rx_item" where
  "rx_lit x = Rep (\<lambda>c. c = x) 1 (Some 1)"

definition rx_digits :: "nat \<Rightarrow> rx_item" where
  "rx_digits n = Rep is_digit n (Some n)"

text \<open>The optional separator \<open>[\s-]?\<close>.\<close>

definition rx_sep :: rx_item where
  "rx_sep = Rep (\<lambda>c. is_space c \<or> c = CHR ''-'') 0 (Some 1)"

definition ssn_pattern :: "rx_item list" where
  "ssn_pattern =
     [WordBoundary, rx_digits 3, rx_lit CHR ''-'', rx_digits 2, rx_lit CHR ''-'', rx_digits 4,
      WordBoundary]"

definition credit_card_pattern :: "rx_item list" where
  "credit_card_pattern =
     [WordBoundary, rx_digits 4, rx_sep, rx_digits 4, rx_sep, rx_digits 4, rx_sep, rx_digits 4,
      WordBoundary]"

definition phone_pattern :: "rx_item list" where
  "phone_pattern =
     [WordBoundary, rx_digits 3, rx_sep, rx_digits 3, rx_sep, rx_digits 4, WordBoundary]"

definition email_pattern :: "rx_item list" where
  "email_pattern =
     [WordBoundary,
      Rep (\<lambda>c. is_letter c \<or> is_digit c \<or> c \<in> set ''._%+-'') 1 None,
      rx_lit CHR ''@'',
      Rep (\<lambda>c. is_letter c \<or> is_digit c \<or> c \<in> set ''.-'') 1 None,
      rx_lit CHR ''.'',
      Rep (\<lambda>c. is_letter c \<or> c = CHR ''|'') 2 None,
      WordBoundary]"

definition caps_word_pattern :: "rx_item list" where
  "caps_word_pattern = [WordBoundary, Rep is_upper_letter 3 None, WordBoundary]"

section \<open>Content filter (safety/content\_filter.py)\<close>

record check_result =
  check_safe :: bool
  check_reason :: string

definition harmful_patterns :: "string list" where
  "harmful_patterns =
     [''kill yourself'', ''commit suicide'', ''self harm'',
      ''i hate you'', ''you'' @ [CHR 39] @ ''re worthless'', ''you'' @ [CHR 39] @ ''re stupid'',
      ''racist'', ''sexist'', ''homophobic'', ''transphobic'',
      ''nazi'', ''hitler'', ''white supremacy'']"

definition inappropriate_patterns :: "string list" where
  "inappropriate_patterns =
     [''porn'', ''sex'', ''nude'', ''explicit'',
      ''drugs'', ''cocaine'', ''heroin'', ''weed'',
      ''violence'', ''murder'', ''assault'']"

definition get_reason :: "string list \<Rightarrow> string list \<Rightarrow> string" where
  "get_reason harmful inappropriate =
     (if harmful \<noteq> [] then ''Harmful content detected: '' @ join '', '' harmful
      else if inappropriate \<noteq> [] then
        ''Inappropriate content detected: '' @ join '', '' inappropriate
      else '''')"

text \<open>
  \<open>check_content\<close>; the two lists of found patterns are also returned by the source and are
  read only through \<open>safe\<close> and \<open>reason\<close>.
\<close>

definition check_content :: "string \<Rightarrow> check_result" where
  "check_content content =
     (let content_lower = lower content;
          harmful_found = filter (contains content_lower) harmful_patterns;
          inappropriate_found = filter (contains content_lower) inappropriate_patterns
      in \<lparr>check_safe = (length harmful_found = 0 \<and> length inappropriate_found = 0),
          check_reason = get_reason harmful_found inappropriate_found\<rparr>)"

section \<open>Consent manager (safety/consent\_manager.py)\<close>

record consent_record =
  cr_timestamp :: string
  cr_sender :: string
  cr_platform :: "string option"
  cr_action :: string

record consent_manager =
  consented_contacts :: "string set"
  consent_history :: "consent_record list"

record consent_result =
  consented :: bool
  consent_reason :: string

definition consent_manager_init :: consent_manager where
  "consent_manager_init = \<lparr>consented_contacts = {}, consent_history = []\<rparr>"

text \<open>
  \<open>check_consent\<close>. With string fields nothing in the body raises, so the \<open>except\<close> branch is
  not a branch of the model.
\<close>

definition check_consent :: "consent_manager \<Rightarrow> message \<Rightarrow> consent_result" where
  "check_consent cm msg =
     (let sender = dict_get msg ''sender'' '''';
          platform = dict_get msg ''platform'' ''''
      in
        if sender \<in> consented_contacts cm then
          \<lparr>consented = True, consent_reason = ''Sender has previously consented''\<rparr>
        else if sender = [] then
          \<lparr>consented = False, consent_reason = ''Unknown sender''\<rparr>
        else if platform \<in> set [''discord'', ''email'', ''slack''] then
          \<lparr>consented = True, consent_reason = ''Platform-based consent''\<rparr>
        else
          \<lparr>consented = False, consent_reason = ''No consent on file for this sender''\<rparr>)"

text \<open>The argument \<open>now\<close> is the value of \<open>datetime.now().isoformat()\<close> at the call.\<close>

definition add_consent :: "string \<Rightarrow> string \<Rightarrow> string \<Rightarrow> consent_manager \<Rightarrow> consent_manager" where
  "add_consent now sender platform cm =
     \<lparr>consented_contacts = insert sender (consented_contacts cm),
      consent_history = consent_history cm @
        [\<lparr>cr_timestamp = now, cr_sender = sender, cr_platform = Some platform,
          cr_action = ''consent_granted''\<rparr>]\<rparr>"

definition remove_consent :: "string \<Rightarrow> string \<Rightarrow> consent_manager \<Rightarrow> consent_manager" where
  "remove_consent now sender cm =
     \<lparr>consented_contacts = consented_contacts cm - {sender},
      consent_history = consent_history cm @
        [\<lparr>cr_timestamp = now, cr_sender = sender, cr_platform = None,
          cr_action = ''consent_revoked''\<rparr>]\<rparr>"

text \<open>
  A call of one of the two mutators, with the clock reading it sees; \<open>consent_run\<close> performs a
  sequence of calls from left to right.
\<close>

datatype consent_call = AddConsent string string string | RemoveConsent string string

fun consent_step :: "consent_manager \<Rightarrow> consent_call \<Rightarrow> consent_manager" where
  "consent_step cm (AddConsent now sender platform) = add_consent now sender platform cm"
| "consent_step cm (RemoveConsent now sender) = remove_consent now sender cm"

definition consent_run :: "consent_call list \<Rightarrow> consent_manager" where
  "consent_run calls = foldl consent_step consent_manager_init calls"

section \<open>Safety monitor (safety/safety\_monitor.py)\<close>

record safety_result =
  safe :: bool
  reason :: string
  safety_confidence :: real
  flags :: "string list"

record safety_event =
  ev_timestamp :: string
  ev_response :: string
  ev_original_message :: string
  ev_sender :: string
  ev_platform :: string
  ev_safe :: bool
  ev_reason :: string
  ev_flags :: "string list"

text \<open>
  The sets \<open>redlines\<close> and \<open>sensitive_topics\<close> are kept as lists, in the order in which
  Python iterates over them: \<open>_check_redlines\<close> reports the first term it meets. The
  iteration order of a Python set of strings is not fixed by the program; the defaults
  below are written in the order of the source text, which is one of the possible orders.
\<close>

record safety_monitor =
  sm_consent_manager :: consent_manager
  safety_mode :: string
  redlines :: "string list"
  sensitive_topics :: "string list"
  safety_events :: "safety_event list"

definition default_redlines :: "string list" where
  "default_redlines =
     [''passwords'', ''credit cards'', ''social security'', ''bank account'',
      ''personal address'', ''phone number'', ''family secrets'',
      ''confidential information'', ''trade secrets'', ''private keys'']"

definition default_sensitive_topics :: "string list" where
  "default_sensitive_topics =
     [''politics'', ''religion'', ''money'', ''health'', ''relationships'',
      ''work conflicts'', ''legal issues'', ''family problems'']"

definition safety_monitor_init :: safety_monitor where
  "safety_monitor_init =
     \<lparr>sm_consent_manager = consent_manager_init, safety_mode = ''strict'',
      redlines = default_redlines, sensitive_topics = default_sensitive_topics,
      safety_events = []\<rparr>"

definition check_redlines :: "string list \<Rightarrow> string \<Rightarrow> check_result" where
  "check_redlines rls response =
     (let response_lower = lower response in
        case find (contains response_lower) rls of
          Some redline \<Rightarrow>
            \<lparr>check_safe = False, check_reason = ''Contains redline term: '' @ redline\<rparr>
        | None \<Rightarrow>
            if list_ex (\<lambda>p. rx_search p response)
                 [ssn_pattern, credit_card_pattern, phone_pattern, email_pattern]
            then \<lparr>check_safe = False,
                  check_reason = ''Contains potential personal information''\<rparr>
            else \<lparr>check_safe = True, check_reason = ''''\<rparr>)"

definition risk_phrases :: "string list" where
  "risk_phrases =
     [''i hate you'', ''you'' @ [CHR 39] @ ''re stupid'', ''you'' @ [CHR 39] @ ''re wrong'',
      ''i don'' @ [CHR 39] @ ''t care'',
      ''whatever'', ''i don'' @ [CHR 39] @ ''t want to talk to you'', ''leave me alone'',
      ''you'' @ [CHR 39] @ ''re annoying'', ''i'' @ [CHR 39] @ ''m done with you'',
      ''goodbye forever'']"

text \<open>
  \<open>_check_relationship_risks\<close>; \<open>response.count('CAPS') > 0\<close> holds exactly when \<open>CAPS\<close> occurs
  in the response, and \<open>len(re.findall(p, response)) > 0\<close> exactly when \<open>p\<close> is found.
\<close>

definition check_relationship_risks :: "string \<Rightarrow> message \<Rightarrow> check_result" where
  "check_relationship_risks response original_message =
     (let response_lower = lower response in
        case find (contains response_lower) risk_phrases of
          Some phrase \<Rightarrow>
            \<lparr>check_safe = False,
             check_reason = ''Contains relationship risk phrase: '' @ phrase\<rparr>
        | None \<Rightarrow>
            if list_ex (\<lambda>b. b)
                 [3 < count_char response CHR ''!'',
                  contains response ''CAPS'',
                  rx_search caps_word_pattern response]
            then \<lparr>check_safe = False, check_reason = ''Aggressive tone detected''\<rparr>
            else \<lparr>check_safe = True, check_reason = ''''\<rparr>)"

text \<open>
  \<open>_log_safety_event\<close>; \<open>now\<close> is the value of \<open>datetime.now().isoformat()\<close> at the call. The
  slices \<open>[:200]\<close> and \<open>[:100]\<close> count bytes in the model.
\<close>

definition log_safety_event ::
    "string \<Rightarrow> string \<Rightarrow> message \<Rightarrow> safety_result \<Rightarrow> safety_monitor \<Rightarrow> safety_monitor" where
  "log_safety_event now response original_message safety_result sm =
     (let content = dict_get original_message ''content'' '''';
          event =
            \<lparr>ev_timestamp = now,
             ev_response =
               (if 200 < length response then take 200 response @ ''...'' else response),
             ev_original_message =
               (if 100 < length content then take 100 content @ ''...'' else content),
             ev_sender = dict_get original_message ''sender'' ''unknown'',
             ev_platform = dict_get original_message ''platform'' ''unknown'',
             ev_safe = safe safety_result,
             ev_reason = reason safety_result,
             ev_flags = flags safety_result\<rparr>;
          events = safety_events sm @ [event]
      in sm\<lparr>safety_events :=
              (if 1000 < length events then keep_last 1000 events else events)\<rparr>)"

text \<open>
  \<open>check_response\<close>: the four checks, each of which overwrites \<open>safe\<close> and \<open>reason\<close> and
  appends its flag when it fails, then the log entry. With a string response and string
  fields in the message none of the checks raises, so the \<open>except\<close> branch is not a branch
  of the model.
\<close>

definition apply_check ::
    "bool \<Rightarrow> string \<Rightarrow> string \<Rightarrow> safety_result \<Rightarrow> safety_result" where
  "apply_check passed new_reason flag r =
     (if \<not> passed then r\<lparr>safe := False, reason := new_reason, flags := flags r @ [flag]\<rparr>
      else r)"

definition check_response ::
    "string \<Rightarrow> safety_monitor \<Rightarrow> string \<Rightarrow> message \<Rightarrow> safety_result \<times> safety_monitor" where
  "check_response now sm response original_message =
     (let r0 = \<lparr>safe = True, reason = '''', safety_confidence = 1, flags = []\<rparr>;
          redline_check = check_redlines (redlines sm) response;
          r1 = apply_check (check_safe redline_check)
                 (''Redline violation: '' @ check_reason redline_check) ''redline'' r0;
          content_check = check_content response;
          r2 = apply_check (check_safe content_check)
                 (''Content filter: '' @ check_reason content_check) ''content'' r1;
          consent_check = check_consent (sm_consent_manager sm) original_message;
          r3 = apply_check (consented consent_check)
                 (''Consent issue: '' @ consent_reason consent_check) ''consent'' r2;
          relationship_check = check_relationship_risks response original_message;
          r4 = apply_check (check_safe relationship_check)
                 (''Relationship risk: '' @ check_reason relationship_check) ''relationship'' r3
      in (r4, log_safety_event now response original_message r4 sm))"

section \<open>External capabilities\<close>

text \<open>
  The sentence-embedding model, the text-generation service, the random source and the
  clock are not code of the program. They are parameters of the model: \<open>load_sentence_model\<close>
  tells whether \<open>SentenceTransformer(model_name)\<close> returns a model (it raises otherwise),
  \<open>encode\<close> is \<open>sentence_model.encode\<close> and \<open>chat_completion\<close> is the content of the first
  choice of \<open>openai.ChatCompletion.create\<close> for a prompt (\<open>None\<close>: the call raises),
  \<open>random_index\<close> is the draw of \<open>np.random.choice\<close>, and \<open>env_now\<close> is
  \<open>datetime.now().isoformat()\<close>. Floating-point numbers are modelled as reals.
\<close>

record env =
  load_sentence_model :: "string \<Rightarrow> bool"
  encode :: "string list \<Rightarrow> real list list option"
  chat_completion :: "string \<Rightarrow> string option"
  random_index :: nat
  env_now :: string

datatype py_error =
  NameError | AttributeError | ValueError | IndexError | ModelLoadError | EncodeError

section \<open>Style embedding (personality\_core/style\_embedding.py)\<close>

record style_embedding =
  se_embeddings :: "real list list"
  se_texts :: "string list"

definition style_embedding_init :: style_embedding where
  "style_embedding_init = \<lparr>se_embeddings = [], se_texts = []\<rparr>"


text \<open>\<open>np.dot\<close> of two vectors of one length, and \<open>np.linalg.norm\<close>.\<close>

definition dot :: "real list \<Rightarrow> real list \<Rightarrow> real" where
  "dot a b = sum_list (map (\<lambda>(x, y). x * y) (zip a b))"

definition norm2 :: "real list \<Rightarrow> real" where
  "norm2 a = sqrt (dot a a)"

definition cosine :: "real list \<Rightarrow> real list \<Rightarrow> real" where
  "cosine a b = dot a b / (norm2 a * norm2 b)"







section \<open>Belief matrix (personality\_core/belief\_matrix.py)\<close>

text \<open>
  \<open>self.beliefs\<close>, a dictionary of counters, as a map from category and key to the count.
\<close>

type_synonym beliefs = "string \<times> string \<rightharpoonup> nat"

definition bump_belief :: "bool \<Rightarrow> string \<Rightarrow> string \<Rightarrow> beliefs \<Rightarrow> beliefs" where
  "bump_belief cond category key b =
     (if cond then b((category, key) \<mapsto> (case b (category, key) of None \<Rightarrow> 0 | Some n \<Rightarrow> n) + 1)
      else b)"

definition extract_beliefs_from_text :: "string \<Rightarrow> beliefs \<Rightarrow> beliefs" where
  "extract_beliefs_from_text text b =
     (let text_lower = lower text;
          any_in = (\<lambda>ws. list_ex (contains text_lower) ws)
      in
        bump_belief (any_in [''socialism'', ''welfare'', ''government'']) ''economics'' ''socialist''
        (bump_belief (any_in [''capitalism'', ''free market'', ''business''])
           ''economics'' ''capitalist''
        (bump_belief (any_in [''tradition'', ''family'', ''values'']) ''social'' ''traditional''
        (bump_belief (any_in [''equality'', ''justice'', ''rights'']) ''social'' ''equality''
        (bump_belief (any_in [''conservative'', ''republican'', ''right''])
           ''politics'' ''conservative''
        (bump_belief (any_in [''liberal'', ''progressive'', ''left'']) ''politics'' ''liberal''
           b))))))"

section \<open>Personality engine (personality\_core/personality\_engine.py)\<close>

text \<open>
  A training item is a dictionary; the engine reads its keys \<open>content\<close> and \<open>personality\<close>
  (\<open>None\<close>: the key is absent).
\<close>

record training_item =
  item_content :: "string option"
  item_personality :: "(string \<times> string) list option"

text \<open>
  The profile and the style patterns are dictionaries whose values are dictionaries.
\<close>

type_synonym pydict = "(string \<times> (string \<times> string) list) list"

text \<open>
  \<open>self.embeddings\<close> is the empty Python list set by the constructor until
  \<open>_build_embedding_database\<close> stores the array returned by \<open>encode\<close>.
\<close>

datatype embeddings = PyEmptyList | NDArray "real list list"

record personality_engine =
  model_name :: string
  sentence_model :: bool
  pe_style_embedding :: style_embedding
  pe_beliefs :: beliefs
  personality_profile :: pydict
  style_patterns :: pydict
  trained :: bool
  pe_embeddings :: embeddings
  pe_texts :: "string list"

definition personality_engine_init :: "string \<Rightarrow> personality_engine" where
  "personality_engine_init name =
     \<lparr>model_name = name, sentence_model = False, pe_style_embedding = style_embedding_init,
      pe_beliefs = Map.empty, personality_profile = [], style_patterns = [], trained = False,
      pe_embeddings = PyEmptyList, pe_texts = []\<rparr>"

definition empty_traits :: pydict where
  "empty_traits =
     [(''communication_style'', []), (''humor_type'', []), (''formality_level'', []),
      (''energy_level'', []), (''emotional_patterns'', []), (''interests'', []),
      (''values'', [])]"

definition empty_patterns :: pydict where
  "empty_patterns =
     [(''vocabulary'', []), (''sentence_structure'', []), (''punctuation'', []),
      (''emoji_patterns'', []), (''response_patterns'', [])]"

text \<open>
  \<open>_extract_personality_traits\<close>. The module does not import \<open>Counter\<close>: when some item has a
  \<open>personality\<close> key, the first use of the name, in \<open>_get_most_common\<close> on the non-empty list
  \<open>comm_styles\<close>, raises \<open>NameError\<close> before any trait is stored.
\<close>

definition extract_personality_traits :: "training_item list \<Rightarrow> py_error + pydict" where
  "extract_personality_traits training_data =
     (let all_personalities = List.map_filter item_personality training_data in
        if all_personalities = [] then Inr empty_traits else Inl NameError)"

text \<open>
  \<open>_build_style_patterns\<close>. When some item has a non-empty content, the word list is built
  and then \<open>Counter(all_words)\<close> raises \<open>NameError\<close> before any pattern is stored.
\<close>

definition item_text :: "training_item \<Rightarrow> string" where
  "item_text item = (case item_content item of None \<Rightarrow> '''' | Some c \<Rightarrow> c)"

definition build_style_patterns :: "training_item list \<Rightarrow> py_error + pydict" where
  "build_style_patterns training_data =
     (let all_texts = filter (\<lambda>c. c \<noteq> []) (map item_text training_data) in
        if all_texts = [] then Inr empty_patterns else Inl NameError)"

text \<open>
  \<open>build_from_data\<close> of the belief matrix catches every exception and returns nothing.
\<close>

definition build_from_data :: "training_item list \<Rightarrow> beliefs \<Rightarrow> beliefs" where
  "build_from_data training_data b =
     foldl (\<lambda>b item. if item_text item \<noteq> [] then extract_beliefs_from_text (item_text item) b
                      else b)
       b training_data"

text \<open>
  The list \<open>texts\<close> of \<open>_build_embedding_database\<close>: the trimmed contents that are longer
  than 10 characters (bytes, in the model).
\<close>

definition embedding_texts :: "training_item list \<Rightarrow> string list" where
  "embedding_texts training_data =
     map strip (filter (\<lambda>c. c \<noteq> [] \<and> 10 < length (strip c)) (map item_text training_data))"

definition build_embedding_database ::
    "env \<Rightarrow> training_item list \<Rightarrow> personality_engine \<Rightarrow> py_error + personality_engine" where
  "build_embedding_database ev training_data pe =
     (if \<not> sentence_model pe then Inr pe
      else
        let txts = embedding_texts training_data
        in
          if txts = [] then Inr pe
          else case encode ev txts of
                 None \<Rightarrow> Inl EncodeError
               | Some embs \<Rightarrow> Inr (pe\<lparr>pe_embeddings := NDArray embs, pe_texts := txts\<rparr>))"

datatype train_result = TrainOk pydict pydict nat | TrainFailed py_error

text \<open>
  \<open>train_personality\<close>: each stage stores its result in the engine as soon as it returns;
  an exception at any stage leaves the \<open>try\<close> block and the failure is reported.
\<close>

definition train_personality ::
    "env \<Rightarrow> training_item list \<Rightarrow> personality_engine \<Rightarrow> train_result \<times> personality_engine" where
  "train_personality ev training_data pe =
     (if \<not> sentence_model pe \<and> \<not> load_sentence_model ev (model_name pe)
      then (TrainFailed ModelLoadError, pe)
      else
        let pe1 = pe\<lparr>sentence_model := True\<rparr> in
          case extract_personality_traits training_data of
            Inl e \<Rightarrow> (TrainFailed e, pe1)
          | Inr traits \<Rightarrow>
              let pe2 = pe1\<lparr>personality_profile := traits\<rparr> in
                case build_style_patterns training_data of
                  Inl e \<Rightarrow> (TrainFailed e, pe2)
                | Inr patterns \<Rightarrow>
                    let pe3 = pe2\<lparr>style_patterns := patterns\<rparr>;
                        pe4 = pe3\<lparr>pe_beliefs := build_from_data training_data (pe_beliefs pe3)\<rparr>
                    in
                      case build_embedding_database ev training_data pe4 of
                        Inl e \<Rightarrow> (TrainFailed e, pe4)
                      | Inr pe5 \<Rightarrow>
                          (TrainOk (personality_profile pe5) (style_patterns pe5)
                             (length training_data),
                           pe5\<lparr>trained := True\<rparr>))"

definition is_trained :: "personality_engine \<Rightarrow> bool" where
  "is_trained pe = trained pe"

text \<open>
  \<open>np.dot(self.embeddings, input_embedding.T).flatten()\<close>: the products of every stored row
  with every row of the encoded input, row by row; \<open>ValueError\<close> when the lengths differ.
\<close>

definition dot_rows :: "real list list \<Rightarrow> real list list \<Rightarrow> py_error + real list" where
  "dot_rows rows qs =
     (if list_ex (\<lambda>r. list_ex (\<lambda>q. length r \<noteq> length q) qs) rows then Inl ValueError
      else Inr (concat (map (\<lambda>r. map (\<lambda>q. dot r q) qs) rows)))"

definition ndarray_size :: "real list list \<Rightarrow> nat" where
  "ndarray_size rows = length rows * (case rows of [] \<Rightarrow> 0 | r # _ \<Rightarrow> length r)"

text \<open>
  \<open>np.argsort(similarities)[-5:][::-1]\<close>. \<open>argsort\<close> is modelled as a stable sort of the
  indices by their similarity, which is what NumPy's default sort does by insertion on
  short arrays: equal similarities stay in index order before the reversal.
\<close>

definition top_indices :: "real list \<Rightarrow> nat list" where
  "top_indices sims = rev (keep_last 5 (sort_key (\<lambda>i. sims ! i) [0 ..< length sims]))"

fun texts_at :: "string list \<Rightarrow> nat list \<Rightarrow> py_error + string list" where
  "texts_at txts [] = Inr []"
| "texts_at txts (i # is) =
     (if length txts \<le> i then Inl IndexError
      else case texts_at txts is of Inl e \<Rightarrow> Inl e | Inr ts \<Rightarrow> Inr (txts ! i # ts))"

text \<open>
  \<open>_find_similar_responses\<close>. On the list left by the constructor \<open>self.embeddings.size\<close>
  raises \<open>AttributeError\<close>.
\<close>

definition find_similar_responses ::
    "env \<Rightarrow> personality_engine \<Rightarrow> string \<Rightarrow> py_error + string list" where
  "find_similar_responses ev pe input_text =
     (if \<not> sentence_model pe then Inr []
      else case pe_embeddings pe of
             PyEmptyList \<Rightarrow> Inl AttributeError
           | NDArray rows \<Rightarrow>
               if ndarray_size rows = 0 then Inr []
               else case encode ev [input_text] of
                      None \<Rightarrow> Inl EncodeError
                    | Some input_embedding \<Rightarrow>
                        (case dot_rows rows input_embedding of
                           Inl e \<Rightarrow> Inl e
                         | Inr similarities \<Rightarrow>
                             texts_at (pe_texts pe)
                               (filter (\<lambda>idx. 3 / 10 < similarities ! idx)
                                  (top_indices similarities))))"

text \<open>
  The retrieval as the specification words it, for comparison with
  \<open>find_similar_responses\<close>: the similarity of a record is the cosine of the query vector
  and the record vector, the records with a similarity above 0.30 are kept, and the first
  five are returned in the order of descending similarity, records of equal similarity in
  the order of ascending index.
\<close>

definition spec_retrieval :: "real list \<Rightarrow> string list \<Rightarrow> real list list \<Rightarrow> string list" where
  "spec_retrieval query_vector txts rows =
     map (\<lambda>(i, s). txts ! i)
       (take 5 (sort_key (\<lambda>(i, s). - s)
          (filter (\<lambda>(i, s). 3 / 10 < s)
             (zip [0 ..< length rows] (map (cosine query_vector) rows)))))"

definition mood_modifiers :: "(string \<times> string) list" where
  "mood_modifiers =
     [(''default'', ''''),
      (''energetic'', ''Be more enthusiastic and high-energy in your response. ''),
      (''savage'', ''Be more sarcastic and witty. Don'' @ [CHR 39] @ ''t hold back. ''),
      (''unhinged'', ''Be chaotic and unpredictable. Embrace the chaos. ''),
      (''professional'', ''Be more formal and business-like. ''),
      (''casual'', ''Be more relaxed and informal. '')]"

definition build_personality_prompt :: "string \<Rightarrow> string" where
  "build_personality_prompt mood =
     ''You are responding as the user'' @ [CHR 39] @ ''s digital twin. ''
       @ (case map_of mood_modifiers mood of None \<Rightarrow> '''' | Some m \<Rightarrow> m)"

definition fallback_responses :: "(string \<times> string list) list" where
  "fallback_responses =
     [(''default'', [''Got it!'', ''Sure thing!'', ''Makes sense.'']),
      (''energetic'',
         [''YES! '' @ [CHR 0xF0, CHR 0x9F, CHR 0x94, CHR 0xA5],
          ''Absolutely! '' @ [CHR 0xF0, CHR 0x9F, CHR 0x92, CHR 0xAF],
          ''Let'' @ [CHR 39] @ ''s go! '' @ [CHR 0xF0, CHR 0x9F, CHR 0x9A, CHR 0x80]]),
      (''savage'', [''Obviously.'', ''Duh.'', ''Sure, whatever.'']),
      (''unhinged'',
         [[CHR 0xF0, CHR 0x9F, CHR 0x98, CHR 0xB5, CHR 0xE2, CHR 0x80, CHR 0x8D,
           CHR 0xF0, CHR 0x9F, CHR 0x92, CHR 0xAB],
          [CHR 0xF0, CHR 0x9F, CHR 0xA4, CHR 0xAF],
          [CHR 0xF0, CHR 0x9F, CHR 0x92, CHR 0xA5]]),
      (''professional'', [''Understood.'', ''I'' @ [CHR 39] @ ''ll take care of that.'', ''Noted.'']),
      (''casual'', [''Cool!'', ''Got it!'', ''Sounds good!''])]"

definition generate_fallback_response :: "env \<Rightarrow> string \<Rightarrow> string \<Rightarrow> string" where
  "generate_fallback_response ev input_text mood =
     (let mood_responses =
            (case map_of fallback_responses mood of
               None \<Rightarrow> [''Got it!'', ''Sure thing!'', ''Makes sense.'']
             | Some rs \<Rightarrow> rs)
      in mood_responses ! (random_index ev mod length mood_responses))"

text \<open>\<open>profile_primary p key\<close> is \<open>p.get(key, {}).get('primary', 'neutral')\<close>.\<close>

definition profile_get :: "pydict \<Rightarrow> string \<Rightarrow> string \<Rightarrow> string \<Rightarrow> string" where
  "profile_get p key field d =
     (case map_of p key of
        None \<Rightarrow> d
      | Some inner \<Rightarrow> (case map_of inner field of None \<Rightarrow> d | Some v \<Rightarrow> v))"

definition nl :: string where
  "nl = [CHR 10]"

definition build_prompt ::
    "personality_engine \<Rightarrow> string \<Rightarrow> string \<Rightarrow> string \<Rightarrow> string list \<Rightarrow> string" where
  "build_prompt pe input_text context mood similar_responses =
     (let personality_prompt = build_personality_prompt mood;
          context_examples = join nl (take 3 similar_responses);
          p = personality_profile pe
      in
        nl @ personality_prompt @ nl @ nl
        @ ''Your communication style:'' @ nl
        @ ''- Primary humor: '' @ profile_get p ''humor_type'' ''primary'' ''neutral'' @ nl
        @ ''- Formality level: '' @ profile_get p ''formality_level'' ''primary'' ''neutral'' @ nl
        @ ''- Energy level: '' @ profile_get p ''energy_level'' ''primary'' ''neutral'' @ nl
        @ ''- Emoji usage: ''
        @ (if profile_get p ''emoji_preference'' ''frequent_user'' '''' \<noteq> ''''
           then ''Frequent'' else ''Occasional'') @ nl
        @ nl
        @ ''Example responses in your style:'' @ nl
        @ context_examples @ nl
        @ nl
        @ ''Context: '' @ context @ nl
        @ nl
        @ ''Input: '' @ input_text @ nl
        @ nl
        @ ''Respond in your authentic style:'' @ nl)"

definition generate_with_personality ::
    "env \<Rightarrow> personality_engine \<Rightarrow> string \<Rightarrow> string \<Rightarrow> string \<Rightarrow> string list \<Rightarrow> string" where
  "generate_with_personality ev pe input_text context mood similar_responses =
     (case chat_completion ev (build_prompt pe input_text context mood similar_responses) of
        Some content \<Rightarrow> strip content
      | None \<Rightarrow> generate_fallback_response ev input_text mood)"

definition still_learning :: string where
  "still_learning =
     ''I'' @ [CHR 39] @ ''m still learning your personality. Please train me first!''"

definition trouble_responding :: string where
  "trouble_responding =
     ''Sorry, I'' @ [CHR 39] @ ''m having trouble responding right now.''"

definition generate_response ::
    "env \<Rightarrow> personality_engine \<Rightarrow> string \<Rightarrow> string \<Rightarrow> string \<Rightarrow> string" where
  "generate_response ev pe input_text context mood =
     (if \<not> trained pe then still_learning
      else case find_similar_responses ev pe input_text of
             Inl e \<Rightarrow> trouble_responding
           | Inr similar_responses \<Rightarrow>
               generate_with_personality ev pe input_text context mood similar_responses)"

section \<open>Response generator (response\_engine/response\_generator.py)\<close>

record history_entry =
  he_timestamp :: string
  he_platform :: string
  he_original_message :: message
  he_response :: string
  he_intent :: intent
  he_mood :: string
  he_auto_reply :: bool

text \<open>
  The field \<open>call_trace\<close> is not a field of the class: it records, in order, every entry into
  \<open>_generate_response\<close> and \<open>_send_response\<close>, so that what a run invokes can be stated.
\<close>

datatype call = CallGenerateResponse | CallSendResponse

record response_generator =
  rg_personality_engine :: "personality_engine option"
  rg_safety_monitor :: "safety_monitor option"
  auto_reply_enabled :: bool
  override_required :: bool
  current_mood :: string
  response_history :: "history_entry list"
  call_trace :: "call list"

definition response_generator_init :: response_generator where
  "response_generator_init =
     \<lparr>rg_personality_engine = None, rg_safety_monitor = None, auto_reply_enabled = False,
      override_required = False, current_mood = ''default'', response_history = [],
      call_trace = []\<rparr>"

datatype outcome =
    ManualReview string intent "string option" message
  | ManualApproval intent string message
  | Sent intent string message
  | Error string message

definition generate_response_rg ::
    "env \<Rightarrow> response_generator \<Rightarrow> message \<Rightarrow> intent \<Rightarrow> string \<Rightarrow> string \<times> response_generator" where
  "generate_response_rg ev rg msg intnt platform =
     (let rg1 = rg\<lparr>call_trace := call_trace rg @ [CallGenerateResponse]\<rparr> in
        case rg_personality_engine rg of
          None \<Rightarrow>
            (''I'' @ [CHR 39] @ ''m still learning how to respond like you!'', rg1)
        | Some pe \<Rightarrow>
            let content = dict_get msg ''content'' '''';
                sender = dict_get msg ''sender'' '''';
                context = dict_get msg ''context'' '''';
                tone = determine_tone (intent_type intnt) context sender;
                response = generate_response ev pe content context (current_mood rg)
            in (apply_tone response tone, rg1))"

definition send_response ::
    "response_generator \<Rightarrow> string \<Rightarrow> string \<Rightarrow> message \<Rightarrow> response_generator" where
  "send_response rg response platform original_message =
     rg\<lparr>call_trace := call_trace rg @ [CallSendResponse]\<rparr>"

definition log_response ::
    "string \<Rightarrow> message \<Rightarrow> string \<Rightarrow> intent \<Rightarrow> string \<Rightarrow> response_generator \<Rightarrow> response_generator" where
  "log_response now original_message response intnt platform rg =
     (let log_entry =
            \<lparr>he_timestamp = now, he_platform = platform,
             he_original_message = original_message, he_response = response,
             he_intent = intnt, he_mood = current_mood rg,
             he_auto_reply = auto_reply_enabled rg\<rparr>;
          history = response_history rg @ [log_entry]
      in rg\<lparr>response_history :=
              (if 1000 < length history then keep_last 1000 history else history)\<rparr>)"

text \<open>
  \<open>process_incoming_message\<close>. Every function called in the \<open>try\<close> block catches its own
  exceptions or cannot raise on string fields, so the outcome \<open>Error\<close> is not produced by
  the model.
\<close>

definition process_incoming_message ::
    "env \<Rightarrow> response_generator \<Rightarrow> message \<Rightarrow> string \<Rightarrow> outcome \<times> response_generator" where
  "process_incoming_message ev rg msg platform =
     (let intnt = classify_intent msg in
        if \<not> auto_reply_enabled rg then
          (ManualReview ''Auto-reply disabled'' intnt None msg, rg)
        else
          let (response, rg1) = generate_response_rg ev rg msg intnt platform;
              (verdict, rg2) =
                (case rg_safety_monitor rg1 of
                   None \<Rightarrow> (None, rg1)
                 | Some sm \<Rightarrow>
                     let (safety_check, sm') = check_response (env_now ev) sm response msg
                     in (Some safety_check, rg1\<lparr>rg_safety_monitor := Some sm'\<rparr>))
          in
            if (case verdict of None \<Rightarrow> False | Some safety_check \<Rightarrow> \<not> safe safety_check) then
              (ManualReview (''Safety concern: '' @ reason (the verdict)) intnt (Some response) msg,
               rg2)
            else if override_required rg2 then
              (ManualApproval intnt response msg, rg2)
            else
              let rg3 = send_response rg2 response platform msg;
                  rg4 = log_response (env_now ev) msg response intnt platform rg3
              in (Sent intnt response msg, rg4))"

section \<open>Sequences of log calls\<close>

text \<open>
  A call of \<open>_log_response\<close> with the clock reading it sees, and the entry it appends; a call
  of \<open>_log_safety_event\<close> likewise.
\<close>

record response_log_call =
  rl_now :: string
  rl_message :: message
  rl_response :: string
  rl_intent :: intent
  rl_platform :: string

definition response_entry :: "response_generator \<Rightarrow> response_log_call \<Rightarrow> history_entry" where
  "response_entry rg c =
     \<lparr>he_timestamp = rl_now c, he_platform = rl_platform c,
      he_original_message = rl_message c, he_response = rl_response c,
      he_intent = rl_intent c, he_mood = current_mood rg,
      he_auto_reply = auto_reply_enabled rg\<rparr>"

definition log_responses :: "response_generator \<Rightarrow> response_log_call list \<Rightarrow> response_generator" where
  "log_responses rg cs =
     foldl (\<lambda>rg c. log_response (rl_now c) (rl_message c) (rl_response c) (rl_intent c)
                     (rl_platform c) rg)
       rg cs"

record safety_log_call =
  sl_now :: string
  sl_response :: string
  sl_message :: message
  sl_result :: safety_result

definition safety_entry :: "safety_log_call \<Rightarrow> safety_event" where
  "safety_entry c =
     (let content = dict_get (sl_message c) ''content'' '''' in
        \<lparr>ev_timestamp = sl_now c,
         ev_response =
           (if 200 < length (sl_response c) then take 200 (sl_response c) @ ''...''
            else sl_response c),
         ev_original_message =
           (if 100 < length content then take 100 content @ ''...'' else content),
         ev_sender = dict_get (sl_message c) ''sender'' ''unknown'',
         ev_platform = dict_get (sl_message c) ''platform'' ''unknown'',
         ev_safe = safe (sl_result c),
         ev_reason = reason (sl_result c),
         ev_flags = flags (sl_result c)\<rparr>)"

definition log_safety_events :: "safety_monitor \<Rightarrow> safety_log_call list \<Rightarrow> safety_monitor" where
  "log_safety_events sm cs =
     foldl (\<lambda>sm c. log_safety_event (sl_now c) (sl_response c) (sl_message c) (sl_result c) sm)
       sm cs"

section \<open>Example inputs\<close>

text \<open>
  An environment in which the sentence model loads, the encoder maps every text to the unit
  vector \<open>(1, 0)\<close>, and the text-generation service is down.
\<close>

definition example_env :: env where
  "example_env =
     \<lparr>load_sentence_model = (\<lambda>name. True),
      encode = (\<lambda>txts. Some (map (\<lambda>t. [1, 0]) txts)),
      chat_completion = (\<lambda>prompt. None),
      random_index = 0,
      env_now = ''2024-01-01T00:00:00''\<rparr>"

definition example_message :: message where
  "example_message = [''sender'' \<mapsto> ''bob'', ''platform'' \<mapsto> ''sms'', ''content'' \<mapsto> ''hello'']"

definition example_engine :: personality_engine where
  "example_engine = personality_engine_init ''all-MiniLM-L6-v2''"

definition example_item :: training_item where
  "example_item = \<lparr>item_content = Some ''hello there, friend'', item_personality = None\<rparr>"

definition example_intent :: intent where
  "example_intent = classify_intent example_message"

definition example_log_call :: response_log_call where
  "example_log_call =
     \<lparr>rl_now = ''2024-01-01T00:00:00'', rl_message = example_message, rl_response = ''hi'',
      rl_intent = example_intent, rl_platform = ''sms''\<rparr>"

definition example_safety_call :: safety_log_call where
  "example_safety_call =
     \<lparr>sl_now = ''2024-01-01T00:00:00'', sl_response = ''hi'', sl_message = example_message,
      sl_result = \<lparr>safe = True, reason = '''', safety_confidence = 1, flags = []\<rparr>\<rparr>"

definition example_unsafe_response :: string where
  "example_unsafe_response = ''I hate you!!!! 123-45-6789''"


text \<open>
  Two training items whose contents differ in the case of one letter only, and the engine
  after \<open>_build_embedding_database\<close> has stored them in \<open>example_env\<close>.
\<close>

definition example_tie_items :: "training_item list" where
  "example_tie_items =
     [\<lparr>item_content = Some ''See you at noon'', item_personality = None\<rparr>,
      \<lparr>item_content = Some ''see you at noon'', item_personality = None\<rparr>]"

definition example_tie_engine :: personality_engine where
  "example_tie_engine =
     example_engine\<lparr>sentence_model := True,
                    pe_embeddings := NDArray [[1, 0], [1, 0]],
                    pe_texts := [''See you at noon'', ''see you at noon'']\<rparr>"

section \<open>Properties of the tone matcher\<close>

lemma tone_adjustments_cases:
  "tone_adjustments tone = [] \<or>
   tone_adjustments tone = [''add formality'', ''use proper grammar'', ''be respectful''] \<or>
   tone_adjustments tone = [''be relaxed'', ''use contractions'', ''be friendly''] \<or>
   tone_adjustments tone = [''be professional'', ''be concise'', ''be clear''] \<or>
   tone_adjustments tone = [''be warm'', ''be supportive'', ''be encouraging''] \<or>
   tone_adjustments tone = [''be quick'', ''be direct'', ''be responsive'']"
  by (simp add: tone_adjustments_def tone_patterns_def)

lemma no_tone_name_in_adjustments:
  "''formal'' \<notin> set (tone_adjustments tone)"
  "''casual'' \<notin> set (tone_adjustments tone)"
  "''professional'' \<notin> set (tone_adjustments tone)"
  "''friendly'' \<notin> set (tone_adjustments tone)"
  "''urgent'' \<notin> set (tone_adjustments tone)"
  using tone_adjustments_cases [of tone] by auto

lemma apply_tone_unchanged: "apply_tone response tone = response"
  by (simp add: apply_tone_def Let_def no_tone_name_in_adjustments)

text \<open>
  C5. \<open>apply_tone\<close> is meant to prefix a greeting (formal), soften the wording (casual), strip
  filler tokens (professional), append an emoji (friendly) and append an exclamation mark
  (urgent). None of these edits is ever made: the text \<open>Come now\<close> has no exclamation mark and
  comes back unchanged under the tone \<open>urgent\<close>, \<open>Hello lol\<close> keeps its filler token under
  \<open>professional\<close>, \<open>Hello\<close> stays \<open>Hello\<close> under \<open>casual\<close>, and \<open>Good luck\<close> gets neither an
  emoji under \<open>friendly\<close> nor a greeting under \<open>formal\<close>.
\<close>

theorem apply_tone_makes_no_edit:
  "apply_tone ''Come now'' ''urgent'' = ''Come now''
   \<and> \<not> contains ''Come now'' ''!''
   \<and> apply_tone ''Hello lol'' ''professional'' = ''Hello lol''
   \<and> apply_tone ''Hello'' ''casual'' = ''Hello''
   \<and> apply_tone ''Good luck'' ''friendly'' = ''Good luck''
   \<and> apply_tone ''Good luck'' ''formal'' = ''Good luck''"
  by (simp add: apply_tone_unchanged)

text \<open>
  C6. \<open>apply_tone\<close> is idempotent: for every response text \<open>x\<close> and every tone \<open>t\<close>, applying
  the tone \<open>t\<close> to \<open>apply_tone x t\<close> gives \<open>apply_tone x t\<close> again.
\<close>

theorem apply_tone_idempotent:
  "apply_tone (apply_tone x t) t = apply_tone x t"
  by (simp add: apply_tone_unchanged)

section \<open>Properties of the consent manager\<close>

lemma check_consent_empty_sender_iff:
  "dict_get msg ''sender'' '''' = '''' \<Longrightarrow>
   consented (check_consent cm msg) = ('''' \<in> consented_contacts cm)"
  by (simp add: check_consent_def Let_def)

lemma consent_step_empty_not_added:
  assumes "'''' \<notin> consented_contacts cm" and "\<forall>now p. c \<noteq> AddConsent now '''' p"
  shows "'''' \<notin> consented_contacts (consent_step cm c)"
  using assms by (cases c) (auto simp: add_consent_def remove_consent_def)

lemma foldl_consent_step_empty_not_added:
  assumes "'''' \<notin> consented_contacts cm"
    and "\<forall>c \<in> set calls. \<forall>now p. c \<noteq> AddConsent now '''' p"
  shows "'''' \<notin> consented_contacts (foldl consent_step cm calls)"
  using assms
proof (induction calls arbitrary: cm)
  case Nil
  then show ?case by simp
next
  case (Cons c calls)
  from Cons.prems have "'''' \<notin> consented_contacts (consent_step cm c)"
    by (intro consent_step_empty_not_added) auto
  with Cons show ?case by simp
qed

text \<open>
  C9, as the claim states it, fails: once \<open>add_consent\<close> has been called with the empty
  string, a message whose sender is empty is reported as consented, here on a platform that
  is not in the default-allowed list.
\<close>

theorem empty_sender_consented_counterexample:
  "consented (check_consent (consent_run [AddConsent ''2024-01-01T00:00:00'' '''' ''''])
     [''sender'' \<mapsto> '''', ''platform'' \<mapsto> ''sms''])"
  by (simp add: consent_run_def consent_manager_init_def add_consent_def check_consent_def
      dict_get_def)

text \<open>
  C9, amended. In every state reached by a sequence of \<open>add_consent\<close> and \<open>remove_consent\<close>
  calls, a message whose sender is the empty string (or is missing) is reported as consented
  exactly when the empty string is itself in the opt-in set, whatever the platform. When no
  call of \<open>add_consent\<close> had the empty string as its sender, the message is reported as not
  consented, with the reason \<open>Unknown sender\<close>.
\<close>

theorem check_consent_empty_sender:
  assumes "dict_get msg ''sender'' '''' = ''''"
  shows "consented (check_consent (consent_run calls) msg)
           = ('''' \<in> consented_contacts (consent_run calls))
       \<and> ((\<forall>c \<in> set calls. \<forall>now p. c \<noteq> AddConsent now '''' p) \<longrightarrow>
           check_consent (consent_run calls) msg
             = \<lparr>consented = False, consent_reason = ''Unknown sender''\<rparr>)"
proof (intro conjI impI)
  show "consented (check_consent (consent_run calls) msg)
          = ('''' \<in> consented_contacts (consent_run calls))"
    using assms by (rule check_consent_empty_sender_iff)
next
  assume "\<forall>c \<in> set calls. \<forall>now p. c \<noteq> AddConsent now '''' p"
  then have "'''' \<notin> consented_contacts (consent_run calls)"
    unfolding consent_run_def
    by (intro foldl_consent_step_empty_not_added) (simp_all add: consent_manager_init_def)
  with assms show "check_consent (consent_run calls) msg
      = \<lparr>consented = False, consent_reason = ''Unknown sender''\<rparr>"
    by (simp add: check_consent_def Let_def)
qed

theorem check_consent_empty_sender_witness:
  "dict_get [''sender'' \<mapsto> '''', ''platform'' \<mapsto> ''discord''] ''sender'' '''' = ''''
   \<and> check_consent
        (consent_run [AddConsent ''t1'' ''alice'' ''discord'', RemoveConsent ''t2'' ''alice''])
        [''sender'' \<mapsto> '''', ''platform'' \<mapsto> ''discord'']
       = \<lparr>consented = False, consent_reason = ''Unknown sender''\<rparr>"
proof -
  let ?calls = "[AddConsent ''t1'' ''alice'' ''discord'', RemoveConsent ''t2'' ''alice'']"
  let ?msg = "[''sender'' \<mapsto> '''', ''platform'' \<mapsto> ''discord'']"
  have h1: "dict_get ?msg ''sender'' '''' = ''''"
    by (simp add: dict_get_def)
  have h2: "\<forall>c \<in> set ?calls. \<forall>now p. c \<noteq> AddConsent now '''' p"
    by simp
  have "check_consent (consent_run ?calls) ?msg
      = \<lparr>consented = False, consent_reason = ''Unknown sender''\<rparr>"
    using check_consent_empty_sender [OF h1, of ?calls, THEN conjunct2, THEN mp, OF h2] .
  with h1 show ?thesis by (rule conjI)
qed

section \<open>Bounded logs\<close>

lemma keep_last_append_step:
  "keep_last n (keep_last n xs @ [e]) = keep_last n (xs @ [e])"
proof (cases "length xs \<le> n")
  case True
  then show ?thesis by (simp add: keep_last_def)
next
  case False
  then have "Suc (length xs) - n = Suc (length xs - n)" by simp
  with False show ?thesis
    by (cases "n = 0") (simp_all add: keep_last_def)
qed

lemma bounded_append_keep_last:
  "(if 1000 < length (h @ [e]) then keep_last 1000 (h @ [e]) else h @ [e])
     = keep_last 1000 (h @ [e])"
  by (simp add: keep_last_def)

lemma log_response_history:
  "response_history
     (log_response (rl_now c) (rl_message c) (rl_response c) (rl_intent c) (rl_platform c) rg)
     = keep_last 1000 (response_history rg @ [response_entry rg c])"
  unfolding log_response_def Let_def response_entry_def
  by (simp add: keep_last_def)

lemma log_response_settings:
  "current_mood (log_response t m r i p rg) = current_mood rg"
  "auto_reply_enabled (log_response t m r i p rg) = auto_reply_enabled rg"
  by (simp_all add: log_response_def Let_def)

lemma response_entry_cong:
  "current_mood rg' = current_mood rg \<Longrightarrow> auto_reply_enabled rg' = auto_reply_enabled rg \<Longrightarrow>
   response_entry rg' = response_entry rg"
  by (rule ext) (simp add: response_entry_def)

lemma log_responses_history_gen:
  assumes "length (response_history rg) \<le> 1000"
  shows "response_history (log_responses rg cs)
     = keep_last 1000 (response_history rg @ map (response_entry rg) cs)
   \<and> current_mood (log_responses rg cs) = current_mood rg
   \<and> auto_reply_enabled (log_responses rg cs) = auto_reply_enabled rg"
proof (induction cs rule: rev_induct)
  case Nil
  show ?case using assms by (simp add: log_responses_def keep_last_def)
next
  case (snoc c cs)
  let ?rg' = "log_responses rg cs"
  have step: "log_responses rg (cs @ [c])
      = log_response (rl_now c) (rl_message c) (rl_response c) (rl_intent c) (rl_platform c) ?rg'"
    by (simp add: log_responses_def)
  have entry: "response_entry ?rg' = response_entry rg"
    using snoc.IH by (intro response_entry_cong) simp_all
  have "response_history (log_responses rg (cs @ [c]))
      = keep_last 1000 (response_history ?rg' @ [response_entry rg c])"
    unfolding step log_response_history entry by simp
  also have "\<dots> = keep_last 1000
      ((response_history rg @ map (response_entry rg) cs) @ [response_entry rg c])"
    using snoc.IH by (simp add: keep_last_append_step)
  finally have "response_history (log_responses rg (cs @ [c]))
      = keep_last 1000 (response_history rg @ map (response_entry rg) (cs @ [c]))"
    by simp
  moreover from snoc.IH have "current_mood (log_responses rg (cs @ [c])) = current_mood rg"
    and "auto_reply_enabled (log_responses rg (cs @ [c])) = auto_reply_enabled rg"
    unfolding step by (simp_all add: log_response_settings)
  ultimately show ?case by simp
qed

lemma log_safety_event_events:
  "safety_events
     (log_safety_event (sl_now c) (sl_response c) (sl_message c) (sl_result c) sm)
     = keep_last 1000 (safety_events sm @ [safety_entry c])"
  unfolding log_safety_event_def Let_def safety_entry_def
  by (simp add: keep_last_def)

lemma log_safety_events_gen:
  assumes "length (safety_events sm) \<le> 1000"
  shows "safety_events (log_safety_events sm cs)
     = keep_last 1000 (safety_events sm @ map safety_entry cs)"
proof (induction cs rule: rev_induct)
  case Nil
  show ?case using assms by (simp add: log_safety_events_def keep_last_def)
next
  case (snoc c cs)
  have step: "log_safety_events sm (cs @ [c])
      = log_safety_event (sl_now c) (sl_response c) (sl_message c) (sl_result c)
          (log_safety_events sm cs)"
    by (simp add: log_safety_events_def)
  have "safety_events (log_safety_events sm (cs @ [c]))
      = keep_last 1000 (safety_events (log_safety_events sm cs) @ [safety_entry c])"
    unfolding step log_safety_event_events by simp
  also have "\<dots> = keep_last 1000
      ((safety_events sm @ map safety_entry cs) @ [safety_entry c])"
    using snoc.IH by (simp add: keep_last_append_step)
  finally show ?case by simp
qed

text \<open>
  C8. The response history and the safety event log are bounded first-in-first-out logs.
  Starting from an empty log, after \<open>N\<close> calls of \<open>_log_response\<close> (of \<open>_log_safety_event\<close>)
  the log holds the entries of the last \<open>min N 1000\<close> calls in the order of the calls: for
  \<open>N > 1000\<close> exactly 1000 entries, the last 1000 appended, and for \<open>N \<le> 1000\<close> all \<open>N\<close>.
\<close>

theorem logs_bounded_fifo:
  assumes "response_history rg = []" and "safety_events sm = []"
  shows "(1000 < length cs \<longrightarrow>
            length (response_history (log_responses rg cs)) = 1000
            \<and> response_history (log_responses rg cs)
                = drop (length cs - 1000) (map (response_entry rg) cs))
       \<and> (length cs \<le> 1000 \<longrightarrow>
            response_history (log_responses rg cs) = map (response_entry rg) cs)
       \<and> (1000 < length es \<longrightarrow>
            length (safety_events (log_safety_events sm es)) = 1000
            \<and> safety_events (log_safety_events sm es)
                = drop (length es - 1000) (map safety_entry es))
       \<and> (length es \<le> 1000 \<longrightarrow>
            safety_events (log_safety_events sm es) = map safety_entry es)"
proof -
  have r: "response_history (log_responses rg cs)
      = drop (length cs - 1000) (map (response_entry rg) cs)"
    using log_responses_history_gen [of rg cs] assms(1) by (simp add: keep_last_def)
  have s: "safety_events (log_safety_events sm es)
      = drop (length es - 1000) (map safety_entry es)"
    using log_safety_events_gen [of sm es] assms(2) by (simp add: keep_last_def)
  show ?thesis unfolding r s by simp
qed

theorem logs_bounded_fifo_witness:
  "response_history response_generator_init = []
   \<and> safety_events safety_monitor_init = []
   \<and> length (response_history
        (log_responses response_generator_init (replicate 1001 example_log_call))) = 1000
   \<and> response_history (log_responses response_generator_init (replicate 1001 example_log_call))
       = replicate 1000 (response_entry response_generator_init example_log_call)
   \<and> response_history (log_responses response_generator_init (replicate 3 example_log_call))
       = replicate 3 (response_entry response_generator_init example_log_call)
   \<and> safety_events (log_safety_events safety_monitor_init (replicate 1001 example_safety_call))
       = replicate 1000 (safety_entry example_safety_call)
   \<and> safety_events (log_safety_events safety_monitor_init (replicate 3 example_safety_call))
       = replicate 3 (safety_entry example_safety_call)"
proof -
  have h1: "response_history response_generator_init = []"
    by (simp add: response_generator_init_def)
  have h2: "safety_events safety_monitor_init = []"
    by (simp add: safety_monitor_init_def)
  note big = logs_bounded_fifo [OF h1 h2, of "replicate 1001 example_log_call"
      "replicate 1001 example_safety_call"]
  note small = logs_bounded_fifo [OF h1 h2, of "replicate 3 example_log_call"
      "replicate 3 example_safety_call"]
  have d: "drop (Suc 0) (replicate 1001 x) = replicate 1000 x" for x :: 'a
    by simp
  from big have b1: "length (response_history
        (log_responses response_generator_init (replicate 1001 example_log_call))) = 1000"
    and b2: "response_history
        (log_responses response_generator_init (replicate 1001 example_log_call))
       = replicate 1000 (response_entry response_generator_init example_log_call)"
    and b3: "safety_events
        (log_safety_events safety_monitor_init (replicate 1001 example_safety_call))
       = replicate 1000 (safety_entry example_safety_call)"
    by (simp_all add: d)
  from small have s1: "response_history
        (log_responses response_generator_init (replicate 3 example_log_call))
       = replicate 3 (response_entry response_generator_init example_log_call)"
    and s2: "safety_events
        (log_safety_events safety_monitor_init (replicate 3 example_safety_call))
       = replicate 3 (safety_entry example_safety_call)"
    by simp_all
  from h1 h2 b1 b2 b3 s1 s2 show ?thesis by simp
qed

section \<open>The safety verdict\<close>

lemma apply_check_fields:
  "safe (apply_check p n f r) = (p \<and> safe r)"
  "reason (apply_check p n f r) = (if p then reason r else n)"
  "flags (apply_check p n f r) = flags r @ (if p then [] else [f])"
  by (simp_all add: apply_check_def)

lemma check_response_fst:
  "fst (check_response t sm response msg)
     = apply_check (check_safe (check_relationship_risks response msg))
         (''Relationship risk: '' @ check_reason (check_relationship_risks response msg))
         ''relationship''
        (apply_check (consented (check_consent (sm_consent_manager sm) msg))
           (''Consent issue: '' @ consent_reason (check_consent (sm_consent_manager sm) msg))
           ''consent''
          (apply_check (check_safe (check_content response))
             (''Content filter: '' @ check_reason (check_content response)) ''content''
            (apply_check (check_safe (check_redlines (redlines sm) response))
               (''Redline violation: '' @ check_reason (check_redlines (redlines sm) response))
               ''redline''
               \<lparr>safe = True, reason = '''', safety_confidence = 1, flags = []\<rparr>)))"
  unfolding check_response_def Let_def by (rule fst_conv)

lemma check_response_snd:
  "snd (check_response t sm response msg)
     = log_safety_event t response msg (fst (check_response t sm response msg)) sm"
  unfolding check_response_def Let_def by simp

lemma log_safety_event_events1:
  "safety_events (log_safety_event t r m v sm)
     = keep_last 1000 (safety_events sm @
         [safety_entry \<lparr>sl_now = t, sl_response = r, sl_message = m, sl_result = v\<rparr>])"
  unfolding log_safety_event_def Let_def safety_entry_def
  by (simp add: keep_last_def)

text \<open>
  C7. \<open>check_response\<close> runs the four checks in the order redlines, content filter, consent,
  relationship risk, whatever the earlier ones found: the verdict is safe exactly when all
  four pass, every failing check leaves its flag, in this order, and the reason is that of
  the last check in this order that fails. The call appends one entry to the event log.
\<close>

theorem check_response_last_failing_reason:
  "safe (fst (check_response t sm response msg))
     = (check_safe (check_redlines (redlines sm) response)
        \<and> check_safe (check_content response)
        \<and> consented (check_consent (sm_consent_manager sm) msg)
        \<and> check_safe (check_relationship_risks response msg))
   \<and> reason (fst (check_response t sm response msg))
     = (if \<not> check_safe (check_relationship_risks response msg)
        then ''Relationship risk: '' @ check_reason (check_relationship_risks response msg)
        else if \<not> consented (check_consent (sm_consent_manager sm) msg)
        then ''Consent issue: '' @ consent_reason (check_consent (sm_consent_manager sm) msg)
        else if \<not> check_safe (check_content response)
        then ''Content filter: '' @ check_reason (check_content response)
        else if \<not> check_safe (check_redlines (redlines sm) response)
        then ''Redline violation: '' @ check_reason (check_redlines (redlines sm) response)
        else '''')
   \<and> flags (fst (check_response t sm response msg))
     = (if check_safe (check_redlines (redlines sm) response) then [] else [''redline''])
       @ (if check_safe (check_content response) then [] else [''content''])
       @ (if consented (check_consent (sm_consent_manager sm) msg) then [] else [''consent''])
       @ (if check_safe (check_relationship_risks response msg) then []
          else [''relationship''])
   \<and> safety_events (snd (check_response t sm response msg))
     = keep_last 1000 (safety_events sm @
         [safety_entry \<lparr>sl_now = t, sl_response = response, sl_message = msg,
            sl_result = fst (check_response t sm response msg)\<rparr>])"
proof (intro conjI)
  show "safe (fst (check_response t sm response msg))
     = (check_safe (check_redlines (redlines sm) response)
        \<and> check_safe (check_content response)
        \<and> consented (check_consent (sm_consent_manager sm) msg)
        \<and> check_safe (check_relationship_risks response msg))"
    unfolding check_response_fst apply_check_fields by auto
  show "reason (fst (check_response t sm response msg))
     = (if \<not> check_safe (check_relationship_risks response msg)
        then ''Relationship risk: '' @ check_reason (check_relationship_risks response msg)
        else if \<not> consented (check_consent (sm_consent_manager sm) msg)
        then ''Consent issue: '' @ consent_reason (check_consent (sm_consent_manager sm) msg)
        else if \<not> check_safe (check_content response)
        then ''Content filter: '' @ check_reason (check_content response)
        else if \<not> check_safe (check_redlines (redlines sm) response)
        then ''Redline violation: '' @ check_reason (check_redlines (redlines sm) response)
        else '''')"
    unfolding check_response_fst apply_check_fields by simp
  show "flags (fst (check_response t sm response msg))
     = (if check_safe (check_redlines (redlines sm) response) then [] else [''redline''])
       @ (if check_safe (check_content response) then [] else [''content''])
       @ (if consented (check_consent (sm_consent_manager sm) msg) then [] else [''consent''])
       @ (if check_safe (check_relationship_risks response msg) then []
          else [''relationship''])"
    unfolding check_response_fst apply_check_fields by simp
  show "safety_events (snd (check_response t sm response msg))
     = keep_last 1000 (safety_events sm @
         [safety_entry \<lparr>sl_now = t, sl_response = response, sl_message = msg,
            sl_result = fst (check_response t sm response msg)\<rparr>])"
    unfolding check_response_snd by (rule log_safety_event_events1)
qed

theorem check_response_last_failing_reason_witness:
  "\<not> safe (fst (check_response ''t'' safety_monitor_init example_unsafe_response example_message))
   \<and> reason (fst (check_response ''t'' safety_monitor_init example_unsafe_response example_message))
       = ''Relationship risk: Contains relationship risk phrase: i hate you''
   \<and> flags (fst (check_response ''t'' safety_monitor_init example_unsafe_response example_message))
       = [''redline'', ''content'', ''consent'', ''relationship'']
   \<and> reason (fst (check_response ''t'' safety_monitor_init ''Call 555-123-4567'' example_message))
       = ''Consent issue: No consent on file for this sender''
   \<and> flags (fst (check_response ''t'' safety_monitor_init ''Call 555-123-4567'' example_message))
       = [''redline'', ''consent'']"
proof -
  have a1: "check_redlines (redlines safety_monitor_init) example_unsafe_response
      = \<lparr>check_safe = False, check_reason = ''Contains potential personal information''\<rparr>"
    by code_simp
  have b1: "check_content example_unsafe_response
      = \<lparr>check_safe = False, check_reason = ''Harmful content detected: i hate you''\<rparr>"
    by code_simp
  have c1: "check_consent (sm_consent_manager safety_monitor_init) example_message
      = \<lparr>consented = False, consent_reason = ''No consent on file for this sender''\<rparr>"
    by code_simp
  have d1: "check_relationship_risks example_unsafe_response example_message
      = \<lparr>check_safe = False,
         check_reason = ''Contains relationship risk phrase: i hate you''\<rparr>"
    by code_simp
  have a2: "check_redlines (redlines safety_monitor_init) ''Call 555-123-4567''
      = \<lparr>check_safe = False, check_reason = ''Contains potential personal information''\<rparr>"
    by code_simp
  have b2: "check_content ''Call 555-123-4567'' = \<lparr>check_safe = True, check_reason = ''''\<rparr>"
    by code_simp
  have d2: "check_relationship_risks ''Call 555-123-4567'' example_message
      = \<lparr>check_safe = True, check_reason = ''''\<rparr>"
    by code_simp
  from check_response_last_failing_reason
         [of "''t''" safety_monitor_init example_unsafe_response example_message]
       check_response_last_failing_reason
         [of "''t''" safety_monitor_init "''Call 555-123-4567''" example_message]
  show ?thesis
    unfolding a1 b1 c1 d1 a2 b2 d2 by simp
qed

section \<open>The auto-reply gate\<close>

lemma generate_response_rg_trace:
  "call_trace (snd (generate_response_rg ev rg msg intnt platform))
     = call_trace rg @ [CallGenerateResponse]"
  by (simp add: generate_response_rg_def Let_def split: option.split)

text \<open>
  C1. When the auto-reply flag is disabled, \<open>process_incoming_message\<close> returns the outcome
  \<open>manual_review\<close> with the reason \<open>Auto-reply disabled\<close> for every message, and the state is
  the state before the call: neither \<open>_generate_response\<close> nor \<open>_send_response\<close> is entered.
\<close>

theorem auto_reply_disabled_manual_review:
  assumes "\<not> auto_reply_enabled rg"
  shows "process_incoming_message ev rg msg platform
           = (ManualReview ''Auto-reply disabled'' (classify_intent msg) None msg, rg)
       \<and> call_trace (snd (process_incoming_message ev rg msg platform)) = call_trace rg"
  using assms by (simp add: process_incoming_message_def Let_def)

theorem auto_reply_disabled_manual_review_witness:
  "\<not> auto_reply_enabled response_generator_init
   \<and> process_incoming_message example_env response_generator_init example_message ''sms''
       = (ManualReview ''Auto-reply disabled'' example_intent None example_message,
          response_generator_init)
   \<and> call_trace (snd (process_incoming_message example_env response_generator_init
        example_message ''sms'')) = []"
proof -
  have h: "\<not> auto_reply_enabled response_generator_init"
    by (simp add: response_generator_init_def)
  from auto_reply_disabled_manual_review [OF h, of example_env example_message "''sms''"] h
  show ?thesis by (simp add: example_intent_def response_generator_init_def)
qed

section \<open>Training\<close>

lemma train_example_item:
  "train_personality example_env [example_item] example_engine
     = (TrainFailed NameError,
        example_engine\<lparr>sentence_model := True, personality_profile := empty_traits\<rparr>)"
  by (simp add: train_personality_def example_env_def example_engine_def example_item_def
      personality_engine_init_def extract_personality_traits_def build_style_patterns_def
      item_text_def List.map_filter_def Let_def)

text \<open>
  C2. The claim: \<open>train_personality\<close> replaces the personality profile, the style patterns
  and the embedding index as one unit, and a run that fails changes none of them. The code
  at a fresh engine whose sentence model loads, on one item with the content
  \<open>hello there, friend\<close>: the run fails with \<open>NameError\<close>, raised in \<open>_build_style_patterns\<close>
  by the name \<open>Counter\<close> that the module never imports, and by then the personality profile
  has been replaced by the newly extracted traits, while the style patterns and the index
  still hold their values from before the call.
\<close>

theorem train_failure_after_profile_replaced:
  "train_personality example_env [example_item] example_engine
     = (TrainFailed NameError,
        example_engine\<lparr>sentence_model := True, personality_profile := empty_traits\<rparr>)
   \<and> personality_profile (snd (train_personality example_env [example_item] example_engine))
       = empty_traits
   \<and> personality_profile example_engine = []
   \<and> style_patterns (snd (train_personality example_env [example_item] example_engine))
       = style_patterns example_engine
   \<and> pe_embeddings (snd (train_personality example_env [example_item] example_engine))
       = pe_embeddings example_engine
   \<and> pe_texts (snd (train_personality example_env [example_item] example_engine))
       = pe_texts example_engine
   \<and> empty_traits \<noteq> []"
  unfolding train_example_item
  by (simp add: example_engine_def personality_engine_init_def empty_traits_def)

lemma train_empty:
  assumes "sentence_model pe \<or> load_sentence_model ev (model_name pe)"
  shows "train_personality ev [] pe
     = (TrainOk empty_traits empty_patterns 0,
        pe\<lparr>sentence_model := True, personality_profile := empty_traits,
           style_patterns := empty_patterns, pe_beliefs := pe_beliefs pe, trained := True\<rparr>)"
  using assms
  by (auto simp: train_personality_def extract_personality_traits_def build_style_patterns_def
      build_from_data_def build_embedding_database_def embedding_texts_def
      List.map_filter_def Let_def)

lemma trouble_not_still_learning: "trouble_responding \<noteq> still_learning"
  by (simp add: trouble_responding_def still_learning_def)

text \<open>
  C3, as the claim states it, fails. After \<open>train_personality\<close> on the empty list, with a
  sentence model that loads, \<open>is_trained\<close> is true and \<open>generate_response\<close> does not return the
  placeholder of the untrained engine.
\<close>

theorem train_empty_trained_counterexample:
  "is_trained (snd (train_personality example_env [] example_engine))
   \<and> generate_response example_env (snd (train_personality example_env [] example_engine))
        ''hello'' '''' ''default'' = trouble_responding
   \<and> trouble_responding \<noteq> still_learning"
proof -
  have l: "sentence_model example_engine
      \<or> load_sentence_model example_env (model_name example_engine)"
    by (simp add: example_env_def)
  show ?thesis
    unfolding train_empty [OF l]
    by (simp add: is_trained_def generate_response_def find_similar_responses_def
        example_engine_def personality_engine_init_def trouble_not_still_learning)
qed

text \<open>
  C3, amended. When the sentence model is loaded or loads, \<open>train_personality\<close> on the empty
  list succeeds and marks the engine as trained: \<open>is_trained\<close> is true, the profile and the
  style patterns are the default structures whose categories are all empty, the embedding
  index is left as it was, and \<open>generate_response\<close> takes its trained branch; on an engine
  whose index was never built it does not return the placeholder of the untrained engine.
\<close>

theorem train_empty_marks_trained:
  assumes "sentence_model pe \<or> load_sentence_model ev (model_name pe)"
  shows "fst (train_personality ev [] pe) = TrainOk empty_traits empty_patterns 0
       \<and> is_trained (snd (train_personality ev [] pe))
       \<and> personality_profile (snd (train_personality ev [] pe)) = empty_traits
       \<and> style_patterns (snd (train_personality ev [] pe)) = empty_patterns
       \<and> pe_embeddings (snd (train_personality ev [] pe)) = pe_embeddings pe
       \<and> pe_texts (snd (train_personality ev [] pe)) = pe_texts pe
       \<and> generate_response ev (snd (train_personality ev [] pe)) input_text context mood
           = (case find_similar_responses ev (snd (train_personality ev [] pe)) input_text of
                Inl e \<Rightarrow> trouble_responding
              | Inr similar_responses \<Rightarrow>
                  generate_with_personality ev (snd (train_personality ev [] pe))
                    input_text context mood similar_responses)
       \<and> (pe_embeddings pe = PyEmptyList \<longrightarrow>
            generate_response ev (snd (train_personality ev [] pe)) input_text context mood
              \<noteq> still_learning)"
proof -
  define pe' where "pe' = snd (train_personality ev [] pe)"
  have r: "fst (train_personality ev [] pe) = TrainOk empty_traits empty_patterns 0"
    by (simp add: train_empty [OF assms])
  have f: "trained pe'" "sentence_model pe'" "personality_profile pe' = empty_traits"
    "style_patterns pe' = empty_patterns" "pe_embeddings pe' = pe_embeddings pe"
    "pe_texts pe' = pe_texts pe"
    unfolding pe'_def by (simp_all add: train_empty [OF assms])
  have g: "generate_response ev pe' input_text context mood
           = (case find_similar_responses ev pe' input_text of
                Inl e \<Rightarrow> trouble_responding
              | Inr similar_responses \<Rightarrow>
                  generate_with_personality ev pe' input_text context mood similar_responses)"
    using f(1) by (simp add: generate_response_def)
  have h: "generate_response ev pe' input_text context mood \<noteq> still_learning"
    if "pe_embeddings pe = PyEmptyList"
  proof -
    from that f have "find_similar_responses ev pe' input_text = Inl AttributeError"
      by (simp add: find_similar_responses_def)
    then show ?thesis unfolding g by (simp add: trouble_not_still_learning)
  qed
  from r f g h show ?thesis unfolding pe'_def is_trained_def by blast
qed

theorem train_empty_marks_trained_witness:
  "fst (train_personality example_env [] example_engine)
     = TrainOk empty_traits empty_patterns 0
   \<and> is_trained (snd (train_personality example_env [] example_engine))
   \<and> personality_profile (snd (train_personality example_env [] example_engine)) = empty_traits
   \<and> style_patterns (snd (train_personality example_env [] example_engine)) = empty_patterns
   \<and> generate_response example_env (snd (train_personality example_env [] example_engine))
        ''hello'' '''' ''default'' \<noteq> still_learning"
proof -
  have l: "sentence_model example_engine
      \<or> load_sentence_model example_env (model_name example_engine)"
    by (simp add: example_env_def)
  have p: "pe_embeddings example_engine = PyEmptyList"
    by (simp add: example_engine_def personality_engine_init_def)
  from train_empty_marks_trained [OF l, of "''hello''" "''''" "''default''"] p
  show ?thesis by fast
qed

section \<open>Similarity search of the style embedding\<close>











section \<open>Retrieval of similar responses\<close>

lemma sorted_wrt_take_drop:
  assumes "sorted_wrt P xs" and "x \<in> set (take k xs)" and "y \<in> set (drop k xs)"
  shows "P x y"
proof -
  from assms(1) have "sorted_wrt P (take k xs @ drop k xs)"
    by simp
  then have "\<forall>a \<in> set (take k xs). \<forall>b \<in> set (drop k xs). P a b"
    unfolding sorted_wrt_append by blast
  with assms(2,3) show ?thesis by blast
qed

lemma top_indices_props:
  fixes sims :: "real list"
  defines "R \<equiv> filter (\<lambda>i. 3 / 10 < sims ! i) (top_indices sims)"
  shows "length R \<le> 5"
    and "distinct R"
    and "\<forall>i \<in> set R. i < length sims \<and> 3 / 10 < sims ! i"
    and "sorted_wrt (\<lambda>i j. sims ! j \<le> sims ! i) R"
    and "\<forall>j < length sims. 3 / 10 < sims ! j \<and> j \<notin> set R \<longrightarrow>
           length R = 5 \<and> (\<forall>i \<in> set R. sims ! j \<le> sims ! i)"
proof -
  let ?n = "length sims"
  let ?f = "\<lambda>i. sims ! i"
  let ?S = "sort_key ?f [0 ..< ?n]"
  let ?T = "drop (?n - 5) ?S"
  have top: "top_indices sims = rev ?T"
    by (simp add: top_indices_def keep_last_def)
  have set_S: "set ?S = {0 ..< ?n}" and len_S: "length ?S = ?n" and dist_S: "distinct ?S"
    by simp_all
  have sorted_S: "sorted_wrt (\<lambda>i j. sims ! i \<le> sims ! j) ?S"
    using sorted_sort_key [of ?f "[0 ..< ?n]"] by (simp add: sorted_map)
  have len_T: "length ?T \<le> 5"
    using len_S by simp
  have "length (filter (\<lambda>i. 3 / 10 < sims ! i) (rev ?T)) \<le> length (rev ?T)"
    by (rule length_filter_le)
  with len_T show "length R \<le> 5"
    unfolding R_def top by simp
  show "distinct R"
    unfolding R_def top using dist_S by simp
  have T_sub: "set ?T \<subseteq> {0 ..< ?n}"
    using set_drop_subset [of "?n - 5" ?S] set_S by blast
  show "\<forall>i \<in> set R. i < length sims \<and> 3 / 10 < sims ! i"
    unfolding R_def top using T_sub by auto
  have "sorted_wrt (\<lambda>i j. sims ! i \<le> sims ! j) ?T"
    using sorted_S by (rule sorted_wrt_drop)
  then have "sorted_wrt (\<lambda>i j. sims ! j \<le> sims ! i) (rev ?T)"
    by (simp add: sorted_wrt_rev)
  then show "sorted_wrt (\<lambda>i j. sims ! j \<le> sims ! i) R"
    unfolding R_def top by (rule sorted_wrt_filter)
  show "\<forall>j < length sims. 3 / 10 < sims ! j \<and> j \<notin> set R \<longrightarrow>
           length R = 5 \<and> (\<forall>i \<in> set R. sims ! j \<le> sims ! i)"
  proof (intro allI impI)
    fix j
    assume j: "j < length sims" and "3 / 10 < sims ! j \<and> j \<notin> set R"
    then have big: "3 / 10 < sims ! j" and notR: "j \<notin> set R"
      by simp_all
    from notR big have notT: "j \<notin> set ?T"
      unfolding R_def top by simp
    have "set (take (?n - 5) ?S @ ?T) = set (take (?n - 5) ?S) \<union> set ?T"
      by (rule set_append)
    then have "set ?S = set (take (?n - 5) ?S) \<union> set ?T"
      by simp
    with j set_S notT have inP: "j \<in> set (take (?n - 5) ?S)"
      by auto
    then have "take (?n - 5) ?S \<noteq> []"
      by auto
    then have "5 < ?n"
      by (cases "?n - 5") simp_all
    then have len5: "length ?T = 5"
      using len_S by simp
    have above: "\<forall>i \<in> set ?T. sims ! j \<le> sims ! i"
      using sorted_wrt_take_drop [OF sorted_S inP] by blast
    then have "\<forall>i \<in> set (rev ?T). 3 / 10 < sims ! i"
      using big by auto
    then have "R = rev ?T"
      unfolding R_def top by simp
    with len5 above show "length R = 5 \<and> (\<forall>i \<in> set R. sims ! j \<le> sims ! i)"
      by simp
  qed
qed

lemma texts_at_ok:
  assumes "\<forall>i \<in> set is. i < length txts"
  shows "texts_at txts is = Inr (map (\<lambda>i. txts ! i) is)"
  using assms by (induction "is") auto

lemma dot_rows_single:
  assumes "\<forall>r \<in> set rows. length r = length qv"
  shows "dot_rows rows [qv] = Inr (map (\<lambda>r. dot r qv) rows)"
  using assms by (simp add: dot_rows_def list_ex_iff concat_map_singleton)

lemma dot_commute: "dot a b = dot b a"
proof (induction a arbitrary: b)
  case Nil
  show ?case by (simp add: dot_def)
next
  case (Cons x xs)
  then show ?case by (cases b) (simp_all add: dot_def mult.commute)
qed

lemma dot_is_cosine_on_unit_vectors:
  assumes "norm2 q = 1" and "norm2 r = 1"
  shows "dot r q = cosine q r"
  using assms by (simp add: cosine_def dot_commute)

text \<open>
  C4, amended. On an index stored by \<open>_build_embedding_database\<close> (at least one row, the rows
  of the positive dimension of the encoded query, one text for each row)
  \<open>_find_similar_responses\<close>
  takes as the similarity of a record the dot product of its vector and the query vector,
  which is the cosine when both have length one. It returns the texts of at most five
  records, all of them with a similarity above 0.30, in descending order of similarity; a
  record with a similarity above 0.30 is left out only when five records are returned and
  none of them has a lower similarity than it. The order among records of equal similarity
  is left open.
\<close>

theorem find_similar_responses_retrieval:
  assumes model: "sentence_model pe"
    and index: "pe_embeddings pe = NDArray rows"
    and nonempty: "rows \<noteq> []"
    and dims: "\<forall>r \<in> set rows. length r = length qv"
    and dim_pos: "qv \<noteq> []"
    and aligned: "length (pe_texts pe) = length rows"
    and query: "encode ev [q] = Some [qv]"
  shows "(\<exists>idxs. find_similar_responses ev pe q = Inr (map (\<lambda>i. pe_texts pe ! i) idxs)
       \<and> length idxs \<le> 5
       \<and> distinct idxs
       \<and> (\<forall>i \<in> set idxs. i < length rows \<and> 3 / 10 < dot (rows ! i) qv)
       \<and> sorted_wrt (\<lambda>i j. dot (rows ! j) qv \<le> dot (rows ! i) qv) idxs
       \<and> (\<forall>j < length rows. 3 / 10 < dot (rows ! j) qv \<and> j \<notin> set idxs \<longrightarrow>
             length idxs = 5 \<and> (\<forall>i \<in> set idxs. dot (rows ! j) qv \<le> dot (rows ! i) qv)))
       \<and> (norm2 qv = 1 \<longrightarrow>
            (\<forall>r \<in> set rows. norm2 r = 1 \<longrightarrow> dot r qv = cosine qv r))"
proof -
  let ?sims = "map (\<lambda>r. dot r qv) rows"
  let ?R = "filter (\<lambda>i. 3 / 10 < ?sims ! i) (top_indices ?sims)"
  note props = top_indices_props [of ?sims]
  have in_range: "\<forall>i \<in> set ?R. i < length rows"
    using props(3) by simp
  have nth: "?sims ! i = dot (rows ! i) qv" if "i < length rows" for i
    using that by simp
  from nonempty dims dim_pos have size: "ndarray_size rows \<noteq> 0"
    by (cases rows) (auto simp: ndarray_size_def)
  have texts: "texts_at (pe_texts pe) ?R = Inr (map (\<lambda>i. pe_texts pe ! i) ?R)"
    using in_range aligned by (intro texts_at_ok) simp
  have run: "find_similar_responses ev pe q = Inr (map (\<lambda>i. pe_texts pe ! i) ?R)"
    unfolding find_similar_responses_def
    using model index size query dot_rows_single [OF dims] texts by simp
  have p3: "\<forall>i \<in> set ?R. i < length rows \<and> 3 / 10 < dot (rows ! i) qv"
  proof
    fix i
    assume i: "i \<in> set ?R"
    with props(3) have "i < length ?sims" and "3 / 10 < ?sims ! i"
      by blast+
    then show "i < length rows \<and> 3 / 10 < dot (rows ! i) qv"
      by simp
  qed
  have p4: "sorted_wrt (\<lambda>i j. dot (rows ! j) qv \<le> dot (rows ! i) qv) ?R"
  proof (rule sorted_wrt_mono_rel [OF _ props(4)])
    fix x y
    assume "x \<in> set ?R" and "y \<in> set ?R" and le: "?sims ! y \<le> ?sims ! x"
    with in_range have x: "x < length rows" and y: "y < length rows"
      by blast+
    from x have "?sims ! x = dot (rows ! x) qv"
      by (rule nth)
    moreover from y have "?sims ! y = dot (rows ! y) qv"
      by (rule nth)
    ultimately show "dot (rows ! y) qv \<le> dot (rows ! x) qv"
      using le by (simp only:)
  qed
  have p5: "\<forall>j < length rows. 3 / 10 < dot (rows ! j) qv \<and> j \<notin> set ?R \<longrightarrow>
             length ?R = 5 \<and> (\<forall>i \<in> set ?R. dot (rows ! j) qv \<le> dot (rows ! i) qv)"
  proof (intro allI impI)
    fix j
    assume j: "j < length rows"
      and h: "3 / 10 < dot (rows ! j) qv \<and> j \<notin> set ?R"
    from j have jl: "j < length ?sims"
      by simp
    from h have h1: "3 / 10 < dot (rows ! j) qv" and h2: "j \<notin> set ?R"
      by blast+
    from nth [OF j] h1 have "3 / 10 < ?sims ! j"
      by (simp only:)
    with jl h2 props(5) have "length ?R = 5" and a: "\<forall>i \<in> set ?R. ?sims ! j \<le> ?sims ! i"
      by blast+
    moreover have "\<forall>i \<in> set ?R. dot (rows ! j) qv \<le> dot (rows ! i) qv"
    proof
      fix i
      assume i: "i \<in> set ?R"
      with in_range have "i < length rows"
        by blast
      then have "?sims ! i = dot (rows ! i) qv"
        by (rule nth)
      moreover from j have "?sims ! j = dot (rows ! j) qv"
        by (rule nth)
      moreover from a i have "?sims ! j \<le> ?sims ! i"
        by blast
      ultimately show "dot (rows ! j) qv \<le> dot (rows ! i) qv"
        by (simp only:)
    qed
    ultimately show "length ?R = 5 \<and> (\<forall>i \<in> set ?R. dot (rows ! j) qv \<le> dot (rows ! i) qv)"
      by simp
  qed
  from run props(1) props(2) p3 p4 p5
  have found: "\<exists>idxs. find_similar_responses ev pe q = Inr (map (\<lambda>i. pe_texts pe ! i) idxs)
       \<and> length idxs \<le> 5
       \<and> distinct idxs
       \<and> (\<forall>i \<in> set idxs. i < length rows \<and> 3 / 10 < dot (rows ! i) qv)
       \<and> sorted_wrt (\<lambda>i j. dot (rows ! j) qv \<le> dot (rows ! i) qv) idxs
       \<and> (\<forall>j < length rows. 3 / 10 < dot (rows ! j) qv \<and> j \<notin> set idxs \<longrightarrow>
             length idxs = 5 \<and> (\<forall>i \<in> set idxs. dot (rows ! j) qv \<le> dot (rows ! i) qv))"
    by blast
  have unit: "norm2 qv = 1 \<longrightarrow>
      (\<forall>r \<in> set rows. norm2 r = 1 \<longrightarrow> dot r qv = cosine qv r)"
    using dot_is_cosine_on_unit_vectors by blast
  from found unit show ?thesis by (rule conjI)
qed

lemma example_tie_built:
  "build_embedding_database example_env example_tie_items
     (example_engine\<lparr>sentence_model := True\<rparr>) = Inr example_tie_engine"
  by (simp add: build_embedding_database_def embedding_texts_def example_tie_items_def
      example_tie_engine_def example_env_def item_text_def strip_def is_space_def Let_def)

lemma example_tie_found:
  "find_similar_responses example_env example_tie_engine ''noon?''
     = Inr [''see you at noon'', ''See you at noon'']"
  by (simp add: find_similar_responses_def example_tie_engine_def example_env_def
      ndarray_size_def dot_rows_def dot_def top_indices_def keep_last_def)

text \<open>
  C4, as the claim states it, fails on records of equal similarity. The two stored texts
  have the same embedding, a unit vector, so cosine and dot product agree and both records
  have the similarity 1 to the query: the code returns the second record before the first,
  where the specified retrieval returns them in the order of their indices.
\<close>

theorem retrieval_tie_order_counterexample:
  "build_embedding_database example_env example_tie_items
     (example_engine\<lparr>sentence_model := True\<rparr>) = Inr example_tie_engine
   \<and> find_similar_responses example_env example_tie_engine ''noon?''
       = Inr [''see you at noon'', ''See you at noon'']
   \<and> spec_retrieval [1, 0] (pe_texts example_tie_engine) [[1, 0], [1, 0]]
       = [''See you at noon'', ''see you at noon'']"
proof -
  have s: "spec_retrieval [1, 0] (pe_texts example_tie_engine) [[1, 0], [1, 0]]
       = [''See you at noon'', ''see you at noon'']"
    by (simp add: spec_retrieval_def example_tie_engine_def cosine_def dot_def norm2_def)
  from example_tie_built example_tie_found s show ?thesis by simp
qed

theorem find_similar_responses_retrieval_witness:
  "sentence_model example_tie_engine
   \<and> pe_embeddings example_tie_engine = NDArray [[1, 0], [1, 0]]
   \<and> encode example_env [''noon?''] = Some [[1, 0]]
   \<and> find_similar_responses example_env example_tie_engine ''noon?''
       = Inr [''see you at noon'', ''See you at noon'']
   \<and> (3 :: real) / 10 < dot [1, 0] [1, 0]
   \<and> norm2 [1, 0] = 1
   \<and> dot [1, 0] [1, 0] = cosine [1, 0] [1, 0]"
proof -
  have a: "sentence_model example_tie_engine"
    and b: "pe_embeddings example_tie_engine = NDArray [[1, 0], [1, 0]]"
    and c: "length (pe_texts example_tie_engine) = length [[1, 0], [1, 0 :: real]]"
    by (simp_all add: example_tie_engine_def)
  have d: "\<forall>r \<in> set [[1, 0], [1, 0 :: real]]. length r = length [1, 0 :: real]"
    and e: "[1, 0 :: real] \<noteq> []" and f: "[[1, 0], [1, 0 :: real]] \<noteq> []"
    by simp_all
  have g: "encode example_env [''noon?''] = Some [[1, 0]]"
    by (simp add: example_env_def)
  note t = find_similar_responses_retrieval [OF a b f d e c g]
  have h: "(3 :: real) / 10 < dot [1, 0] [1, 0]"
    by (simp add: dot_def)
  have u: "norm2 [1, 0] = 1"
    by (simp add: norm2_def dot_def)
  have k: "dot [1, 0] [1, 0] = cosine [1, 0] [1, 0]"
    by (simp add: cosine_def norm2_def dot_def)
  from t a b g example_tie_found h u k show ?thesis by simp
qed

end
